theory Spec2Isabelle
  imports Complex_Main "HOL-Library.Sublist" "HOL-Library.AList"
begin

section \<open>Numbers, strings and time\<close>

text \<open>
  The program is Python. Its floats are modelled by the real numbers they denote (rounding is
  not modelled; every threshold comparison of the source is between a value and a decimal
  literal, and the products used below are exact). Tickers, categories, actions and
  strategies are strings, as in the source. A \<open>datetime\<close> is an integer number of
  microseconds; a \<open>timedelta\<close> is the difference of two of them, and its normalised
  attributes \<open>.days\<close> and \<open>.seconds\<close> are the floor quotient by one day and the
  whole seconds left within the day.
\<close>

type_synonym datetime = int

definition td_days :: "int \<Rightarrow> int" where
  "td_days d = d div 86400000000"

definition td_seconds :: "int \<Rightarrow> int" where
  "td_seconds d = (d div 1000000) mod 86400"

section \<open>Signal generator (second_order_ai.py)\<close>

text \<open>
  An affected entity is the dictionary the prompt of \<open>map_second_order_effects\<close> asks
  for; a trade signal is the dictionary built in \<open>generate_trade_signals\<close>.
\<close>

record entity =
  ticker :: string
  relationship :: string
  impact_direction :: string
  impact_magnitude :: real
  confidence :: real
  time_lag_days :: real
  rationale :: string

record signal =
  s_ticker :: string
  action :: string
  strategy :: string
  size_multiplier :: real
  time_horizon :: real
  stop_loss :: real
  take_profit :: real
  s_rationale :: string

definition determine_strategy :: "entity \<Rightarrow> string" where
  "determine_strategy e =
     (if confidence e > 0.8 \<and> time_lag_days e < 5 then ''DIRECT_EQUITY''
      else if confidence e > 0.7 \<and> time_lag_days e < 10 then ''OPTIONS_DIRECTIONAL''
      else if relationship e \<in> set [''competitor'', ''inverse''] then ''PAIRS_TRADE''
      else ''OPTIONS_SPREAD'')"

text \<open>The dictionary literal of the loop body.\<close>

definition make_signal :: "entity \<Rightarrow> signal" where
  "make_signal e =
     \<lparr> s_ticker = ticker e,
       action = (if impact_direction e = ''positive'' then ''BUY'' else ''SELL''),
       strategy = determine_strategy e,
       size_multiplier = confidence e * impact_magnitude e,
       time_horizon = time_lag_days e,
       stop_loss = (if confidence e > 0.8 then 0.05 else 0.03),
       take_profit = (if impact_magnitude e > 0.7 then 0.1 else 0.07),
       s_rationale = rationale e \<rparr>"

text \<open>
  The mapping from category to entities is a Python dict, iterated in insertion order:
  an association list. \<open>all_entities\<close> is the order in which the two nested loops
  visit the records; \<open>candidates\<close> is the list \<open>signals\<close> when the loops end.
\<close>

type_synonym second_order_map = "(string \<times> entity list) list"

definition all_entities :: "second_order_map \<Rightarrow> entity list" where
  "all_entities m = concat (map snd m)"

definition passes :: "entity \<Rightarrow> bool" where
  "passes e = (confidence e > 0.6)"

definition candidates :: "second_order_map \<Rightarrow> signal list" where
  "candidates m = map make_signal (filter passes (all_entities m))"

text \<open>
  \<open>sorted(xs, key=k, reverse=True)\<close>: Python's sort is stable, also when reversed
  (elements with equal keys keep their order). The stable descending sort is the stable
  ascending sort by the negated key.
\<close>

definition sorted_reverse :: "('a \<Rightarrow> real) \<Rightarrow> 'a list \<Rightarrow> 'a list" where
  "sorted_reverse k xs = sort_key (\<lambda>x. - k x) xs"

definition generate_trade_signals :: "second_order_map \<Rightarrow> signal list" where
  "generate_trade_signals m = take 10 (sorted_reverse size_multiplier (candidates m))"

section \<open>Trading algorithm (second_order_algo.py)\<close>

text \<open>
  The algorithm runs inside the QuantConnect engine. What it reads from the engine is part of
  the state: the clock \<open>Time\<close>, the portfolio (one holding per added security, as an
  association list from symbol to quantity, a dictionary in insertion order), prices,
  unrealised profit and daily history. What it asks of the engine is recorded in
  \<open>order_log\<close>. The engine is not code of the repository; its effect on the state is
  kept minimal and explicit:
  \<^item> \<open>SetHoldings\<close> leaves the holding of the symbol at \<open>fill_quantity\<close>, a
    parameter (zero when nothing is filled), and touches no other holding;
  \<^item> \<open>Liquidate\<close> leaves the holding of the symbol at zero;
  \<^item> \<open>StopMarketOrder\<close> only places an order;
  \<^item> indexing \<open>Portfolio\<close> or \<open>Securities\<close> with a symbol that was never added
    raises.
  \<open>Debug\<close> messages are kept as values, without the formatting of the f-strings.
\<close>

datatype error = KeyNotFound string | AddEquityFailed string | RequestFailed

datatype order =
    SetHoldingsOrder string real
  | StopMarket string real real
  | LiquidateOrder string

datatype debug_msg =
    CouldNotAdd string
  | PrimaryEventDetected string real
  | MultiDayEvent string real
  | SecondOrderLong string string real
  | SecondOrderShort string string real
  | ClosedPosition string

record position =
  entry_time :: datetime
  direction :: string
  reason :: string
  p_confidence :: real

record slice =
  ContainsKey :: "string \<Rightarrow> bool"
  Bars :: "string \<Rightarrow> bool"

record algo =
  supply_chains :: "(string \<times> (string \<times> string list) list) list"
  primary_movers :: "string list"
  max_positions :: nat
  position_size :: real
  second_order_multiplier :: real
  second_order_positions :: "(string \<times> position) list"
  Time :: datetime
  Portfolio :: "(string \<times> real) list"
  Price :: "string \<Rightarrow> real"
  UnrealizedProfitPercent :: "string \<Rightarrow> real"
  History :: "string \<Rightarrow> nat \<Rightarrow> real list"
  fill_quantity :: "string \<Rightarrow> real \<Rightarrow> real"
  add_fails :: "string \<Rightarrow> bool"
  order_log :: "order list"
  debug_log :: "debug_msg list"

subsection \<open>The engine\<close>

definition Debug :: "debug_msg \<Rightarrow> algo \<Rightarrow> algo" where
  "Debug m s = s\<lparr>debug_log := debug_log s @ [m]\<rparr>"

definition AddEquity :: "string \<Rightarrow> algo \<Rightarrow> algo" where
  "AddEquity t s =
     (if t \<in> fst ` set (Portfolio s) then s else s\<lparr>Portfolio := Portfolio s @ [(t, 0)]\<rparr>)"

definition SetHoldings :: "string \<Rightarrow> real \<Rightarrow> algo \<Rightarrow> algo" where
  "SetHoldings symbol pct s =
     s\<lparr>Portfolio := AList.update symbol (fill_quantity s symbol pct) (Portfolio s),
       order_log := order_log s @ [SetHoldingsOrder symbol pct]\<rparr>"

definition StopMarketOrder :: "string \<Rightarrow> real \<Rightarrow> real \<Rightarrow> algo \<Rightarrow> algo" where
  "StopMarketOrder symbol qty stop s = s\<lparr>order_log := order_log s @ [StopMarket symbol qty stop]\<rparr>"

definition Liquidate :: "string \<Rightarrow> algo \<Rightarrow> algo" where
  "Liquidate symbol s =
     s\<lparr>Portfolio := AList.update symbol 0 (Portfolio s),
       order_log := order_log s @ [LiquidateOrder symbol]\<rparr>"

text \<open>\<open>Portfolio[symbol].Quantity\<close> and \<open>.Invested\<close> of a holding.\<close>

definition Quantity :: "algo \<Rightarrow> string \<Rightarrow> real" where
  "Quantity s symbol = (case map_of (Portfolio s) symbol of Some q \<Rightarrow> q | None \<Rightarrow> 0)"

definition Invested :: "algo \<Rightarrow> string \<Rightarrow> bool" where
  "Invested s symbol = (Quantity s symbol \<noteq> 0)"

text \<open>\<open>len([x for x in self.Portfolio.Values if x.Invested])\<close>\<close>

definition current_positions :: "algo \<Rightarrow> nat" where
  "current_positions s = length (filter (\<lambda>q. q \<noteq> 0) (map snd (Portfolio s)))"

subsection \<open>The algorithm\<close>

text \<open>\<open>d.get(k, [])\<close> on a dictionary of lists.\<close>

definition get_list :: "(string \<times> 'a list) list \<Rightarrow> string \<Rightarrow> 'a list" where
  "get_list d k = (case map_of d k of Some v \<Rightarrow> v | None \<Rightarrow> [])"

definition chains_literal :: "(string \<times> (string \<times> string list) list) list" where
  "chains_literal =
     [(''AAPL'', [(''suppliers'', [''QCOM'', ''SWKS'', ''AVGO'', ''QRVO'']),
                  (''competitors'', [''GOOGL'', ''MSFT'', ''AMZN'']),
                  (''related'', [''FOXC'', ''LPL'', ''AAOI''])]),
      (''TSLA'', [(''suppliers'', [''PANW'', ''ALB'', ''LAC'', ''LTHM'']),
                  (''competitors'', [''F'', ''GM'', ''RIVN'', ''LCID'']),
                  (''related'', [''QS'', ''CHPT'', ''BLNK''])]),
      (''NVDA'', [(''suppliers'', [''TSM'', ''ASML'', ''AMAT'', ''LRCX'']),
                  (''customers'', [''MSFT'', ''GOOGL'', ''AMZN'', ''META'']),
                  (''competitors'', [''AMD'', ''INTC''])])]"

text \<open>
  \<open>Initialize\<close>. Adding a primary mover is not guarded, so a failure there aborts;
  adding a related security is inside \<open>try\<close>. The related tickers are collected in a
  Python set, whose iteration order is not fixed; the model visits them in order of
  appearance (the order only decides the order of the portfolio list).
\<close>

fun add_primary :: "string list \<Rightarrow> algo \<Rightarrow> error + algo" where
  "add_primary [] s = Inr s"
| "add_primary (t # ts) s =
     (if add_fails s t then Inl (AddEquityFailed t) else add_primary ts (AddEquity t s))"

fun add_related :: "string list \<Rightarrow> algo \<Rightarrow> algo" where
  "add_related [] s = s"
| "add_related (t # ts) s =
     (if add_fails s t then add_related ts (Debug (CouldNotAdd t) s)
      else add_related ts (AddEquity t s))"

definition Initialize :: "algo \<Rightarrow> error + algo" where
  "Initialize s0 =
     (let s1 = s0\<lparr>supply_chains := chains_literal,
                  primary_movers := [''AAPL'', ''TSLA'', ''NVDA'', ''MSFT'', ''AMZN'']\<rparr>
      in case add_primary (primary_movers s1) s1 of
           Inl e \<Rightarrow> Inl e
         | Inr s2 \<Rightarrow>
             let all_related = remdups (concat (map (\<lambda>chain. concat (map snd (snd chain)))
                                                   (supply_chains s2)));
                 s3 = add_related all_related s2
             in Inr (s3\<lparr>max_positions := 10, position_size := 0.1,
                         second_order_multiplier := 0.6, second_order_positions := []\<rparr>))"

definition ExecuteSecondOrderTrade ::
    "algo \<Rightarrow> string \<Rightarrow> string \<Rightarrow> string \<Rightarrow> real \<Rightarrow> error + algo" where
  "ExecuteSecondOrderTrade s symbol dir why conf =
     (if symbol \<notin> fst ` set (Portfolio s) then Inl (KeyNotFound symbol)
      else if Invested s symbol then Inr s
      else if current_positions s \<ge> max_positions s then Inr s
      else
        let base_size = position_size s * second_order_multiplier s;
            adjusted_size = base_size * conf;
            s1 = (if dir = ''LONG'' then
                    let a = SetHoldings symbol adjusted_size s;
                        b = Debug (SecondOrderLong symbol why adjusted_size) a;
                        current_price = Price b symbol
                    in StopMarketOrder symbol (- Quantity b symbol) (current_price * 0.95) b
                  else if dir = ''SHORT'' then
                    let a = SetHoldings symbol (- adjusted_size) s;
                        b = Debug (SecondOrderShort symbol why adjusted_size) a;
                        current_price = Price b symbol
                    in StopMarketOrder symbol (Quantity b symbol) (current_price * 1.05) b
                  else s)
        in Inr (s1\<lparr>second_order_positions :=
                     AList.update symbol
                       \<lparr>entry_time = Time s1, direction = dir, reason = why, p_confidence = conf\<rparr>
                       (second_order_positions s1)\<rparr>))"

text \<open>
  One \<open>for\<close> loop of \<open>TriggerSecondOrderTrades\<close>: every ticker of the list that the
  slice contains is traded; an exception of the call leaves the loop and the handler.
\<close>

fun trade_each ::
    "string list \<Rightarrow> slice \<Rightarrow> string \<Rightarrow> string \<Rightarrow> real \<Rightarrow> algo \<Rightarrow> error + algo" where
  "trade_each [] data dir why conf s = Inr s"
| "trade_each (t # ts) data dir why conf s =
     (if ContainsKey data t then
        (case ExecuteSecondOrderTrade s t dir why conf of
           Inl e \<Rightarrow> Inl e
         | Inr s' \<Rightarrow> trade_each ts data dir why conf s')
      else trade_each ts data dir why conf s)"

definition TriggerSecondOrderTrades ::
    "algo \<Rightarrow> string \<Rightarrow> real \<Rightarrow> slice \<Rightarrow> error + algo" where
  "TriggerSecondOrderTrades s primary_symbol primary_move data =
     (case map_of (supply_chains s) primary_symbol of
        None \<Rightarrow> Inr s
      | Some chain \<Rightarrow>
          if primary_move > 0 then
            (case trade_each (get_list chain ''suppliers'') data ''LONG''
                    (primary_symbol @ '' rally benefits supplier'') 0.7 s of
               Inl e \<Rightarrow> Inl e
             | Inr s1 \<Rightarrow>
                 trade_each (get_list chain ''competitors'') data ''SHORT''
                    (primary_symbol @ '' rally hurts competitor'') 0.5 s1)
          else
            (case trade_each (get_list chain ''suppliers'') data ''SHORT''
                    (primary_symbol @ '' decline hurts supplier'') 0.6 s of
               Inl e \<Rightarrow> Inl e
             | Inr s1 \<Rightarrow>
                 trade_each (get_list chain ''competitors'') data ''LONG''
                    (primary_symbol @ '' decline helps competitor'') 0.4 s1))"

text \<open>
  \<open>OnData\<close>: the loop over the primary movers. \<open>intraday_fires\<close> is the test of the
  source for one symbol, given that the slice holds it.
\<close>

definition intraday_fires :: "algo \<Rightarrow> slice \<Rightarrow> string \<Rightarrow> bool" where
  "intraday_fires s data symbol =
     (ContainsKey data symbol \<and> Bars data symbol \<and> \<bar>UnrealizedProfitPercent s symbol\<bar> > 0.05)"

fun OnData_loop :: "string list \<Rightarrow> slice \<Rightarrow> algo \<Rightarrow> error + algo" where
  "OnData_loop [] data s = Inr s"
| "OnData_loop (symbol # rest) data s =
     (if \<not> ContainsKey data symbol then OnData_loop rest data s
      else if Bars data symbol then
        (if symbol \<notin> fst ` set (Portfolio s) then Inl (KeyNotFound symbol)
         else
           let daily_return = UnrealizedProfitPercent s symbol in
           if \<bar>daily_return\<bar> > 0.05 then
             (case TriggerSecondOrderTrades
                     (Debug (PrimaryEventDetected symbol daily_return) s)
                     symbol daily_return data of
                Inl e \<Rightarrow> Inl e
              | Inr s' \<Rightarrow> OnData_loop rest data s')
           else OnData_loop rest data s)
      else OnData_loop rest data s)"

definition OnData :: "algo \<Rightarrow> slice \<Rightarrow> error + algo" where
  "OnData s data = OnData_loop (primary_movers s) data s"

text \<open>
  \<open>AnalyzeSecondOrderOpportunities\<close>. The body of the inner loop is inside
  \<open>try ... except: continue\<close>: a history shorter than five closes (\<open>iloc[-5]\<close>)
  and an exception of the trade are both skipped. Closes are prices, so positive; the
  quotient by a zero close is not modelled.
\<close>

definition ticker_return :: "real list \<Rightarrow> real option" where
  "ticker_return closes =
     (if length closes < 5 then None
      else Some (last closes / (closes ! (length closes - 5)) - 1))"

definition analyze_ticker :: "string \<Rightarrow> real \<Rightarrow> string \<Rightarrow> string \<Rightarrow> algo \<Rightarrow> algo" where
  "analyze_ticker primary_symbol multi_day_return category t s =
     (let ticker_history = History s t 20 in
      if ticker_history = [] then s
      else case ticker_return ticker_history of
        None \<Rightarrow> s
      | Some tr \<Rightarrow>
          let return_differential = \<bar>multi_day_return\<bar> - \<bar>tr\<bar> in
          if return_differential > 0.05 then
            let dir0 = (if multi_day_return > 0 then ''LONG'' else ''SHORT'');
                dir = (if category = ''competitors''
                       then (if dir0 = ''LONG'' then ''SHORT'' else ''LONG'') else dir0)
            in case ExecuteSecondOrderTrade s t dir
                      (''Lagging '' @ category @ '' to '' @ primary_symbol) 0.6 of
                 Inl e \<Rightarrow> s
               | Inr s' \<Rightarrow> s'
          else s)"

definition AnalyzeSecondOrderOpportunities :: "algo \<Rightarrow> string \<Rightarrow> real \<Rightarrow> algo" where
  "AnalyzeSecondOrderOpportunities s primary_symbol multi_day_return =
     (case map_of (supply_chains s) primary_symbol of
        None \<Rightarrow> s
      | Some chain \<Rightarrow>
          fold (\<lambda>(category, tickers) s1.
                  fold (analyze_ticker primary_symbol multi_day_return category) tickers s1)
               chain s)"

text \<open>
  \<open>DetectSecondOrderEffects\<close>, the scheduled handler. The whole body of its loop is
  inside \<open>try ... except: continue\<close>; a symbol without rows in the history raises at
  \<open>history.loc[symbol]\<close> and is skipped.
\<close>

definition five_day_return :: "real list \<Rightarrow> real option" where
  "five_day_return closes = (if closes = [] then None else Some (last closes / hd closes - 1))"

definition multi_day_fires :: "algo \<Rightarrow> string \<Rightarrow> bool" where
  "multi_day_fires s symbol =
     (case five_day_return (History s symbol 5) of None \<Rightarrow> False | Some r \<Rightarrow> \<bar>r\<bar> > 0.10)"

definition detect_symbol :: "string \<Rightarrow> algo \<Rightarrow> algo" where
  "detect_symbol symbol s =
     (case five_day_return (History s symbol 5) of
        None \<Rightarrow> s
      | Some r \<Rightarrow>
          if \<bar>r\<bar> > 0.10
          then AnalyzeSecondOrderOpportunities (Debug (MultiDayEvent symbol r) s) symbol r
          else s)"

definition DetectSecondOrderEffects :: "algo \<Rightarrow> algo" where
  "DetectSecondOrderEffects s =
     (if list_all (\<lambda>symbol. History s symbol 5 = []) (primary_movers s) then s
      else fold detect_symbol (primary_movers s) s)"

text \<open>
  \<open>OnEndOfDay\<close>: first the symbols whose holding period, in whole days, is above 5 are
  collected, then each of them that is still invested is liquidated and forgotten
  (\<open>close_one\<close>: \<open>Liquidate\<close>, \<open>Debug\<close> and \<open>del\<close>).
\<close>

definition holding_period :: "algo \<Rightarrow> position \<Rightarrow> int" where
  "holding_period s info = td_days (Time s - entry_time info)"

definition positions_to_close :: "algo \<Rightarrow> string list" where
  "positions_to_close s =
     map fst (filter (\<lambda>(sy, info). holding_period s info > 5) (second_order_positions s))"

definition close_one :: "string \<Rightarrow> algo \<Rightarrow> algo" where
  "close_one sy s =
     (Debug (ClosedPosition sy) (Liquidate sy s))
       \<lparr>second_order_positions := AList.delete sy (second_order_positions s)\<rparr>"

fun close_positions :: "string list \<Rightarrow> algo \<Rightarrow> error + algo" where
  "close_positions [] s = Inr s"
| "close_positions (sy # rest) s =
     (if sy \<notin> fst ` set (Portfolio s) then Inl (KeyNotFound sy)
      else if Invested s sy then close_positions rest (close_one sy s)
      else close_positions rest s)"

definition OnEndOfDay :: "algo \<Rightarrow> string \<Rightarrow> error + algo" where
  "OnEndOfDay s symbol = close_positions (positions_to_close s) s"

section \<open>Supply chain mapper (the helper module written by setup_quantconnect_project.py)\<close>

record mapper =
  relationships :: "(string \<times> (string \<times> string list) list) list"

text \<open>\<open>str.lower\<close> on ASCII letters, and the substring test \<open>x in y\<close>.\<close>

definition lower_char :: "char \<Rightarrow> char" where
  "lower_char c =
     (let n = (of_char c :: nat) in if 65 \<le> n \<and> n \<le> 90 then char_of (n + 32) else c)"

definition lower :: "string \<Rightarrow> string" where
  "lower t = map lower_char t"

definition get_affected_tickers ::
    "mapper \<Rightarrow> string \<Rightarrow> string \<Rightarrow> (string \<times> string list) list" where
  "get_affected_tickers mp primary_ticker event_type =
     (case map_of (relationships mp) primary_ticker of
        None \<Rightarrow> []
      | Some base_relations \<Rightarrow>
          if sublist ''earnings_beat'' (lower event_type) then
            AList.update ''negative'' (get_list base_relations ''competitors'')
              (AList.update ''positive'' (get_list base_relations ''suppliers'') [])
          else if sublist ''supply_disruption'' (lower event_type) then
            AList.update ''positive'' (get_list base_relations ''competitors'')
              (AList.update ''negative'' (get_list base_relations ''customers'') [])
          else if sublist ''innovation'' (lower event_type) then
            AList.update ''negative'' (get_list base_relations ''competitors'')
              (AList.update ''positive'' (get_list base_relations ''ecosystem'') [])
          else [])"

definition weights :: "(string \<times> real) list" where
  "weights = [(''suppliers'', 0.7), (''customers'', 0.6), (''competitors'', 0.5),
              (''ecosystem'', 0.4), (''infrastructure'', 0.6), (''partners'', 0.8)]"

definition calculate_impact_score :: "mapper \<Rightarrow> string \<Rightarrow> string \<Rightarrow> string \<Rightarrow> real" where
  "calculate_impact_score mp primary_ticker affected_ticker relationship_type =
     (case map_of weights relationship_type of Some w \<Rightarrow> w | None \<Rightarrow> 0.3)"

section \<open>Response cache of the collaborator queries (second_order_ai.py)\<close>

text \<open>
  \<open>_query_perplexity\<close> and \<open>_query_claude\<close> share one cache. The key is the string
  made of a prefix and the decimal form of \<open>hash(prompt)\<close>, modelled by the pair of the
  prefix and the hash; Python's \<open>hash\<close> is a parameter. One call reads the clock once
  for the lookup (\<open>now\<close>) and, when it goes out, once more to stamp the answer
  (\<open>stamp\<close>); \<open>http\<close> is what the request gives: the text of the answer, or an
  exception. \<open>calls\<close> lists the requests that went out.
\<close>

record cache_entry =
  response :: string
  timestamp :: datetime

record ai =
  cache :: "(string \<times> int) \<Rightarrow> cache_entry option"
  py_hash :: "string \<Rightarrow> int"
  calls :: "(string \<times> string) list"

definition cache_hit :: "ai \<Rightarrow> string \<times> int \<Rightarrow> datetime \<Rightarrow> string option" where
  "cache_hit s cache_key now =
     (case cache s cache_key of
        None \<Rightarrow> None
      | Some e \<Rightarrow> if td_seconds (now - timestamp e) < 300 then Some (response e) else None)"

definition query ::
    "string \<Rightarrow> ai \<Rightarrow> string \<Rightarrow> datetime \<Rightarrow> datetime \<Rightarrow> error + string
       \<Rightarrow> (error + string) \<times> ai" where
  "query pfx s prompt now stamp http =
     (let cache_key = (pfx, py_hash s prompt) in
      case cache_hit s cache_key now of
        Some r \<Rightarrow> (Inr r, s)
      | None \<Rightarrow>
          let s1 = s\<lparr>calls := calls s @ [(pfx, prompt)]\<rparr> in
          case http of
            Inl e \<Rightarrow> (Inl e, s1)
          | Inr result \<Rightarrow>
              (Inr result,
               s1\<lparr>cache := (cache s1)(cache_key \<mapsto> \<lparr>response = result, timestamp = stamp\<rparr>)\<rparr>))"

definition query_perplexity ::
    "ai \<Rightarrow> string \<Rightarrow> datetime \<Rightarrow> datetime \<Rightarrow> error + string \<Rightarrow> (error + string) \<times> ai" where
  "query_perplexity s prompt now stamp http = query ''perplexity_'' s prompt now stamp http"

definition query_claude ::
    "ai \<Rightarrow> string \<Rightarrow> datetime \<Rightarrow> datetime \<Rightarrow> error + string \<Rightarrow> (error + string) \<times> ai" where
  "query_claude s prompt now stamp http = query ''claude_'' s prompt now stamp http"

text \<open>The age of a cached answer at a lookup, in microseconds.\<close>

definition seconds :: "int \<Rightarrow> int" where
  "seconds n = n * 1000000"

section \<open>Inputs of the scenarios\<close>

text \<open>One ticker under two categories, both records above the confidence threshold.\<close>

definition dup_map :: second_order_map where
  "dup_map =
     [(''supply_chain'',
         [\<lparr> ticker = ''T'', relationship = ''supplier'', impact_direction = ''positive'',
             impact_magnitude = 0.9, confidence = 0.9, time_lag_days = 1, rationale = ''a'' \<rparr>]),
      (''sector_rotation'',
         [\<lparr> ticker = ''T'', relationship = ''correlated'', impact_direction = ''positive'',
             impact_magnitude = 0.5, confidence = 0.7, time_lag_days = 3, rationale = ''b'' \<rparr>])]"

text \<open>
  A cache that holds the answer \<open>old\<close> to the prompt \<open>q\<close> for both collaborators,
  stamped at time 0, under any hash function.
\<close>

definition old_entry :: cache_entry where
  "old_entry = \<lparr>response = ''old'', timestamp = 0\<rparr>"

definition stale_ai :: "(string \<Rightarrow> int) \<Rightarrow> ai" where
  "stale_ai h =
     \<lparr> cache = (\<lambda>k. if k = (''perplexity_'', h ''q'') \<or> k = (''claude_'', h ''q'')
                      then Some old_entry else None),
       py_hash = h,
       calls = [] \<rparr>"

text \<open>
  A fresh engine (nothing added, nothing held) on which every symbol trades at 100 and an
  order for the fraction \<open>pct\<close> of the portfolio is filled with \<open>1000 * pct\<close> shares.
\<close>

definition engine0 :: algo where
  "engine0 =
     \<lparr> supply_chains = [], primary_movers = [], max_positions = 0, position_size = 0,
       second_order_multiplier = 0, second_order_positions = [], Time = 0, Portfolio = [],
       Price = (\<lambda>t. 100), UnrealizedProfitPercent = (\<lambda>t. 0), History = (\<lambda>t n. []),
       fill_quantity = (\<lambda>t pct. 1000 * pct), add_fails = (\<lambda>t. False),
       order_log = [], debug_log = [] \<rparr>"

text \<open>
  The graph of the fallback scenario: primary X with supplier A and competitor B, all three
  added to the engine, nothing held, and the risk settings of \<open>Initialize\<close>.
\<close>

definition xab_algo :: algo where
  "xab_algo =
     engine0\<lparr> supply_chains := [(''X'', [(''suppliers'', [''A'']), (''competitors'', [''B''])])],
              primary_movers := [''X''], max_positions := 10, position_size := 0.1,
              second_order_multiplier := 0.6,
              Portfolio := [(''X'', 0), (''A'', 0), (''B'', 0)] \<rparr>"

definition xab_mapper :: mapper where
  "xab_mapper = \<lparr> relationships = supply_chains xab_algo \<rparr>"

text \<open>A slice that holds a bar for every symbol.\<close>

definition full_slice :: slice where
  "full_slice = \<lparr> ContainsKey = (\<lambda>t. True), Bars = (\<lambda>t. True) \<rparr>"

text \<open>
  Ten invested holdings that are not second-order positions, and one free symbol Z.
\<close>

definition full_algo :: algo where
  "full_algo =
     xab_algo\<lparr> Portfolio := [(''P0'', 5), (''P1'', 5), (''P2'', 5), (''P3'', 5), (''P4'', 5),
                            (''P5'', 5), (''P6'', 5), (''P7'', 5), (''P8'', 5), (''P9'', 5),
                            (''Z'', 0)] \<rparr>"

text \<open>The order log of a call that returned, empty if it raised.\<close>

definition orders_of :: "error + algo \<Rightarrow> order list" where
  "orders_of r = (case r of Inl e \<Rightarrow> [] | Inr s \<Rightarrow> order_log s)"

definition positions_of :: "error + algo \<Rightarrow> (string \<times> position) list" where
  "positions_of r = (case r of Inl e \<Rightarrow> [] | Inr s \<Rightarrow> second_order_positions s)"

text \<open>The stop-market orders of an order log, each as its symbol and stop price.\<close>

fun stop_prices :: "order list \<Rightarrow> (string \<times> real) list" where
  "stop_prices [] = []"
| "stop_prices (StopMarket symbol quantity stop_price # rest) =
     (symbol, stop_price) # stop_prices rest"
| "stop_prices (SetHoldingsOrder symbol pct # rest) = stop_prices rest"
| "stop_prices (LiquidateOrder symbol # rest) = stop_prices rest"

text \<open>
  The entity of a BUY signal whose stop loss is 3% and whose take profit is 10%.
\<close>

definition a_map :: second_order_map where
  "a_map =
     [(''supply_chain'',
         [\<lparr> ticker = ''A'', relationship = ''supplier'', impact_direction = ''positive'',
             impact_magnitude = 0.9, confidence = 0.7, time_lag_days = 1, rationale = ''r'' \<rparr>])]"

section \<open>Runs of the algorithm\<close>

text \<open>
  The engine calls the handlers one after the other. Before each call it sets what the
  algorithm observes: the clock, prices, unrealised profit, history, and how the next orders
  fill. A run stops at the first handler that raises. Holdings change only through
  \<open>SetHoldings\<close> and \<open>Liquidate\<close>: the fill of a resting stop order is an event of
  the engine and is not part of a run.
\<close>

record market =
  clock :: datetime
  prices :: "string \<Rightarrow> real"
  unrealized :: "string \<Rightarrow> real"
  history :: "string \<Rightarrow> nat \<Rightarrow> real list"
  fills :: "string \<Rightarrow> real \<Rightarrow> real"

definition observe :: "market \<Rightarrow> algo \<Rightarrow> algo" where
  "observe m s =
     s\<lparr>Time := clock m, Price := prices m, UnrealizedProfitPercent := unrealized m,
       History := history m, fill_quantity := fills m\<rparr>"

datatype call =
    OnDataCall market slice
  | ScheduledCall market
  | EndOfDayCall market string

fun handle :: "call \<Rightarrow> algo \<Rightarrow> error + algo" where
  "handle (OnDataCall m data) s = OnData (observe m s) data"
| "handle (ScheduledCall m) s = Inr (DetectSecondOrderEffects (observe m s))"
| "handle (EndOfDayCall m symbol) s = OnEndOfDay (observe m s) symbol"

fun run :: "call list \<Rightarrow> algo \<Rightarrow> error + algo" where
  "run [] s = Inr s"
| "run (c # cs) s = (case handle c s of Inl e \<Rightarrow> Inl e | Inr s' \<Rightarrow> run cs s')"

text \<open>The cap \<open>n\<close> is configured and the invested holdings are at most \<open>n\<close>.\<close>

definition capped :: "nat \<Rightarrow> algo \<Rightarrow> bool" where
  "capped n s = (max_positions s = n \<and> current_positions s \<le> n)"

text \<open>
  A market in which the holding of X shows an unrealised profit of 6% and the last five
  daily closes of X rose by 12%; the related tickers did not move.
\<close>

definition x_market :: "datetime \<Rightarrow> market" where
  "x_market t =
     \<lparr> clock = t, prices = (\<lambda>sy. 100),
       unrealized = (\<lambda>sy. if sy = ''X'' then 0.06 else 0),
       history = (\<lambda>sy n. if sy = ''X'' then [100, 101, 103, 108, 112]
                            else [50, 50, 50, 50, 50]),
       fills = (\<lambda>sy pct. 1000 * pct) \<rparr>"

text \<open>
  Calendar time: the length of a day, and the time at a given day, hour and minute.
\<close>

definition one_day :: int where
  "one_day = 86400000000"

definition at_time :: "int \<Rightarrow> int \<Rightarrow> int \<Rightarrow> datetime" where
  "at_time d h m = seconds (d * 86400 + h * 3600 + m * 60)"

text \<open>
  A long second-order position in A of 42 shares, opened on day 0 at 09:45 and still held.
\<close>

definition a_position :: position where
  "a_position = \<lparr>entry_time = at_time 0 9 45, direction = ''LONG'',
                  reason = ''X rally benefits supplier'', p_confidence = 0.7\<rparr>"

definition held_algo :: algo where
  "held_algo =
     xab_algo\<lparr> Portfolio := [(''X'', 0), (''A'', 42), (''B'', 0)],
               second_order_positions := [(''A'', a_position)],
               Time := at_time 0 9 45 \<rparr>"

definition holdings_of :: "error + algo \<Rightarrow> (string \<times> real) list" where
  "holdings_of r = (case r of Inl e \<Rightarrow> [] | Inr s \<Rightarrow> Portfolio s)"

definition debug_of :: "error + algo \<Rightarrow> debug_msg list" where
  "debug_of r = (case r of Inl e \<Rightarrow> [] | Inr s \<Rightarrow> debug_log s)"

text \<open>The end-of-day sweeps of days 0 to 5, each at 15:50, and the state on day 6 at 15:50.\<close>

definition sweeps_to_day_5 :: "call list" where
  "sweeps_to_day_5 = map (\<lambda>d. EndOfDayCall (x_market (at_time d 15 50)) ''A'') [0, 1, 2, 3, 4, 5]"

definition day_6_algo :: algo where
  "day_6_algo = held_algo\<lparr>Time := at_time 6 15 50\<rparr>"

section \<open>Primary events\<close>

text \<open>
  A primary event is reported by a \<open>Debug\<close> message of \<open>OnData\<close> (intraday rule) or
  of \<open>DetectSecondOrderEffects\<close> (multi-day rule), just before the handler acts on it.
  \<open>events_for\<close> picks the primary events of one ticker out of the log.
\<close>

fun event_ticker :: "debug_msg \<Rightarrow> string option" where
  "event_ticker (PrimaryEventDetected sy r) = Some sy"
| "event_ticker (MultiDayEvent sy r) = Some sy"
| "event_ticker m = None"

definition events_for :: "string \<Rightarrow> debug_msg list \<Rightarrow> debug_msg list" where
  "events_for sy msgs = filter (\<lambda>m. event_ticker m = Some sy) msgs"

definition multi_day_move :: "algo \<Rightarrow> string \<Rightarrow> real" where
  "multi_day_move s sy =
     (case five_day_return (History s sy 5) of Some r \<Rightarrow> r | None \<Rightarrow> 0)"

text \<open>
  Every primary mover and every ticker of the graph was added to the engine, as
  \<open>Initialize\<close> does when no \<open>AddEquity\<close> fails.
\<close>

definition chain_tickers :: "algo \<Rightarrow> string set" where
  "chain_tickers s =
     set (concat (map (\<lambda>chain. concat (map snd (snd chain))) (supply_chains s)))"

definition all_added :: "algo \<Rightarrow> bool" where
  "all_added s = (set (primary_movers s) \<union> chain_tickers s \<subseteq> fst ` set (Portfolio s))"

text \<open>
  What the trading code leaves alone: the configuration, the market data, the set of added
  symbols, and the primary events of the log.
\<close>

definition quiet :: "string \<Rightarrow> algo \<Rightarrow> algo \<Rightarrow> bool" where
  "quiet sy0 s s' =
     (primary_movers s' = primary_movers s \<and> supply_chains s' = supply_chains s \<and>
      UnrealizedProfitPercent s' = UnrealizedProfitPercent s \<and> History s' = History s \<and>
      fst ` set (Portfolio s') = fst ` set (Portfolio s) \<and>
      events_for sy0 (debug_log s') = events_for sy0 (debug_log s))"

section \<open>Properties of the signal generator\<close>

lemma sorted_reverse_descending:
  "sorted_wrt (\<lambda>a b. k b \<le> k a) (sorted_reverse k xs)"
proof -
  have "sorted (map (\<lambda>x. - k x) (sort_key (\<lambda>x. - k x) xs))"
    by (rule sorted_sort_key)
  then show ?thesis
    by (simp add: sorted_reverse_def sorted_map)
qed

lemma sorted_reverse_stable:
  "filter (\<lambda>y. k y = v) (sorted_reverse k xs) = filter (\<lambda>y. k y = v) xs"
proof -
  have "filter (\<lambda>y. - k y = - v) (sort_key (\<lambda>x. - k x) xs) = filter (\<lambda>y. - k y = - v) xs"
    by (rule sort_key_stable)
  then show ?thesis
    by (simp add: sorted_reverse_def)
qed

lemma length_sorted_reverse: "length (sorted_reverse k xs) = length xs"
  by (simp add: sorted_reverse_def)

lemma length_filter_sorted_reverse:
  "length (filter P (sorted_reverse k xs)) = length (filter P xs)"
proof -
  have "filter P (sort_key (\<lambda>x. - k x) xs) = sort_key (\<lambda>x. - k x) (filter P xs)"
    by (rule filter_sort)
  then show ?thesis
    by (simp add: sorted_reverse_def)
qed

lemma length_filter_take_le: "length (filter P (take n xs)) \<le> length (filter P xs)"
proof -
  have "length (filter P (take n xs)) + length (filter P (drop n xs)) = length (filter P xs)"
    by (metis append_take_drop_id filter_append length_append)
  then show ?thesis by linarith
qed

text \<open>
  C9. For the single affected entity (ticker C, positive, magnitude 0.9, confidence 0.85,
  lag 2 days), under any category, relationship and rationale, the signal generator returns
  exactly one signal: BUY, DIRECT_EQUITY, stop loss 0.05, take profit 0.10 and size
  multiplier 0.765.
\<close>

theorem generate_trade_signals_scenario_C9:
  "generate_trade_signals
     [(category, [\<lparr> ticker = ''C'', relationship = rel, impact_direction = ''positive'',
                    impact_magnitude = 0.9, confidence = 0.85, time_lag_days = 2,
                    rationale = why \<rparr>])]
   = [\<lparr> s_ticker = ''C'', action = ''BUY'', strategy = ''DIRECT_EQUITY'',
        size_multiplier = 0.765, time_horizon = 2, stop_loss = 0.05, take_profit = 0.10,
        s_rationale = why \<rparr>]"
  by (simp add: generate_trade_signals_def sorted_reverse_def candidates_def all_entities_def
      passes_def make_signal_def determine_strategy_def)

text \<open>
  C7. For every input mapping, the signal generator returns at most 10 signals, in
  descending order of size multiplier, and stably: the returned signals of any given size
  multiplier are, in the same order, the first of the candidates with that size multiplier,
  the candidates being in input order (categories in order, then the records of each).
\<close>

theorem generate_trade_signals_ranked_C7:
  "length (generate_trade_signals m) \<le> 10 \<and>
   sorted_wrt (\<lambda>a b. size_multiplier b \<le> size_multiplier a) (generate_trade_signals m) \<and>
   (\<forall>v. prefix (filter (\<lambda>s. size_multiplier s = v) (generate_trade_signals m))
               (filter (\<lambda>s. size_multiplier s = v) (candidates m)))"
proof (intro conjI allI)
  show "length (generate_trade_signals m) \<le> 10"
    by (simp add: generate_trade_signals_def)
  show "sorted_wrt (\<lambda>a b. size_multiplier b \<le> size_multiplier a) (generate_trade_signals m)"
    unfolding generate_trade_signals_def
    by (rule sorted_wrt_take) (rule sorted_reverse_descending)
next
  fix v
  have "prefix (take 10 (sorted_reverse size_multiplier (candidates m)))
               (sorted_reverse size_multiplier (candidates m))"
    by (rule take_is_prefix)
  then have "prefix (filter (\<lambda>s. size_multiplier s = v) (generate_trade_signals m))
                    (filter (\<lambda>s. size_multiplier s = v)
                       (sorted_reverse size_multiplier (candidates m)))"
    unfolding generate_trade_signals_def by (rule filter_mono_prefix)
  then show "prefix (filter (\<lambda>s. size_multiplier s = v) (generate_trade_signals m))
                    (filter (\<lambda>s. size_multiplier s = v) (candidates m))"
    by (simp add: sorted_reverse_stable)
qed

lemma filter_ticker_candidates:
  "filter (\<lambda>s. s_ticker s = t) (candidates m)
     = map make_signal (filter (\<lambda>e. ticker e = t \<and> passes e) (all_entities m))"
  by (simp add: candidates_def filter_map comp_def make_signal_def conj_commute)

text \<open>
  C1, as stated, fails: the signal generator has no deduplication. In \<open>dup_map\<close> the
  ticker T is under two categories, and both records give a signal.
\<close>

theorem generate_trade_signals_dup_counterexample_C1:
  "map s_ticker (generate_trade_signals dup_map) = [''T'', ''T'']"
  by (simp add: dup_map_def generate_trade_signals_def sorted_reverse_def candidates_def
      all_entities_def passes_def make_signal_def determine_strategy_def)

text \<open>
  C1, amended. The signal generator does not deduplicate by ticker: for every mapping and
  every ticker, the output holds at most as many signals for the ticker as there are records
  for it with confidence above 0.6, over all categories, and exactly as many when at most
  10 records of the mapping are above the threshold.
\<close>

theorem generate_trade_signals_no_dedup_C1:
  "length (filter (\<lambda>s. s_ticker s = t) (generate_trade_signals m))
     \<le> length (filter (\<lambda>e. ticker e = t \<and> passes e) (all_entities m)) \<and>
   (length (filter passes (all_entities m)) \<le> 10 \<longrightarrow>
    length (filter (\<lambda>s. s_ticker s = t) (generate_trade_signals m))
      = length (filter (\<lambda>e. ticker e = t \<and> passes e) (all_entities m)))"
proof -
  let ?P = "\<lambda>s. s_ticker s = t"
  let ?srt = "sorted_reverse size_multiplier (candidates m)"
  have all: "length (filter ?P ?srt)
               = length (filter (\<lambda>e. ticker e = t \<and> passes e) (all_entities m))"
    by (simp add: length_filter_sorted_reverse filter_ticker_candidates)
  have le: "length (filter ?P (generate_trade_signals m)) \<le> length (filter ?P ?srt)"
    unfolding generate_trade_signals_def by (rule length_filter_take_le)
  have eq: "generate_trade_signals m = ?srt" if "length (filter passes (all_entities m)) \<le> 10"
    using that by (simp add: generate_trade_signals_def length_sorted_reverse candidates_def)
  show ?thesis using all le eq by auto
qed

theorem generate_trade_signals_no_dedup_C1_witness:
  "length (filter passes (all_entities dup_map)) \<le> 10 \<and>
   length (filter (\<lambda>s. s_ticker s = ''T'') (generate_trade_signals dup_map)) = 2"
proof -
  have n: "length (filter passes (all_entities dup_map)) \<le> 10"
    by (simp add: dup_map_def all_entities_def passes_def)
  have k: "length (filter (\<lambda>e. ticker e = ''T'' \<and> passes e) (all_entities dup_map)) = 2"
    by (simp add: dup_map_def all_entities_def passes_def)
  show ?thesis
    using generate_trade_signals_no_dedup_C1 [of "''T''" dup_map] n k by simp
qed

subsection \<open>The response cache\<close>

lemma td_seconds_fresh:
  "0 \<le> d \<Longrightarrow> d < seconds 300 \<Longrightarrow> td_seconds d < 300"
  unfolding td_seconds_def seconds_def by simp

lemma td_seconds_stale:
  assumes "seconds 300 \<le> d" and "d < seconds 86400"
  shows "\<not> td_seconds d < 300"
proof -
  have a: "300 \<le> d div 1000000" using assms(1) unfolding seconds_def by simp
  have b: "d div 1000000 < 86400" using assms(2) unfolding seconds_def by simp
  have "(d div 1000000) mod 86400 = d div 1000000" using a b by simp
  then show ?thesis using a unfolding td_seconds_def by simp
qed

lemma query_fresh:
  assumes "cache s (pfx, py_hash s prompt) = Some e"
    and "0 \<le> now - timestamp e" and "now - timestamp e < seconds 300"
  shows "query pfx s prompt now stamp http = (Inr (response e), s)"
  using assms td_seconds_fresh [of "now - timestamp e"]
  by (simp add: query_def cache_hit_def)

lemma query_stale_within_a_day:
  assumes "cache s (pfx, py_hash s prompt) = Some e"
    and "seconds 300 \<le> now - timestamp e" and "now - timestamp e < seconds 86400"
  shows "calls (snd (query pfx s prompt now stamp http)) = calls s @ [(pfx, prompt)] \<and>
         (case http of
            Inl err \<Rightarrow> query pfx s prompt now stamp http = (Inl err, s\<lparr>calls := calls s @ [(pfx, prompt)]\<rparr>)
          | Inr result \<Rightarrow>
              fst (query pfx s prompt now stamp http) = Inr result \<and>
              cache (snd (query pfx s prompt now stamp http)) (pfx, py_hash s prompt)
                = Some \<lparr>response = result, timestamp = stamp\<rparr>)"
  using assms td_seconds_stale [of "now - timestamp e"]
  by (simp add: query_def cache_hit_def Let_def split: sum.splits)

lemma query_miss:
  assumes "cache s (pfx, py_hash s prompt) = None"
  shows "calls (snd (query pfx s prompt now stamp http)) = calls s @ [(pfx, prompt)]"
  using assms by (simp add: query_def cache_hit_def Let_def split: sum.splits)

text \<open>
  C6: the claim is right for an answer younger than 5 minutes and for one between 5 minutes
  and a day old (the three lemmas above), but the age is read from the \<open>.seconds\<close>
  attribute of the difference, which leaves whole days out. An answer that is one day and 10
  seconds old is served from the cache by both query functions, with no request and no
  change of the cache.
\<close>

theorem query_serves_day_old_entry_C6:
  "query_perplexity (stale_ai h) ''q'' (seconds 86410) stamp http = (Inr ''old'', stale_ai h) \<and>
   query_claude (stale_ai h) ''q'' (seconds 86410) stamp http = (Inr ''old'', stale_ai h) \<and>
   seconds 300 \<le> seconds 86410 - timestamp old_entry"
  by (simp add: query_perplexity_def query_claude_def query_def cache_hit_def stale_ai_def
      old_entry_def td_seconds_def seconds_def)

subsection \<open>Opening a position\<close>

lemma count_update_le:
  "length (filter (\<lambda>q. q \<noteq> (0::real)) (map snd (AList.update k v al)))
     \<le> Suc (length (filter (\<lambda>q. q \<noteq> 0) (map snd al)))"
  by (induction al) auto

lemma count_update_zero_le:
  "length (filter (\<lambda>q. q \<noteq> (0::real)) (map snd (AList.update k 0 al)))
     \<le> length (filter (\<lambda>q. q \<noteq> 0) (map snd al))"
  by (induction al) auto

lemma Quantity_update:
  "symbol \<in> fst ` set al \<Longrightarrow> map_of (AList.update symbol v al) symbol = Some v"
  by (simp add: update_conv')

lemma Execute_refused:
  assumes "symbol \<in> fst ` set (Portfolio s)"
    and "Invested s symbol \<or> max_positions s \<le> current_positions s"
  shows "ExecuteSecondOrderTrade s symbol dir why conf = Inr s"
  using assms by (auto simp: ExecuteSecondOrderTrade_def)

lemma Execute_max_positions:
  "ExecuteSecondOrderTrade s symbol dir why conf = Inr s' \<Longrightarrow> max_positions s' = max_positions s"
  by (auto simp: ExecuteSecondOrderTrade_def Let_def SetHoldings_def Debug_def StopMarketOrder_def
      split: if_splits)

lemma Execute_count:
  assumes "ExecuteSecondOrderTrade s symbol dir why conf = Inr s'"
    and "current_positions s \<le> max_positions s"
  shows "current_positions s' \<le> max_positions s'"
proof (cases "symbol \<in> fst ` set (Portfolio s) \<and> \<not> Invested s symbol
              \<and> current_positions s < max_positions s")
  case False
  then show ?thesis using assms
    by (auto simp: ExecuteSecondOrderTrade_def split: if_splits)
next
  case True
  have "current_positions s' \<le> Suc (current_positions s)"
    using assms(1) True count_update_le [of symbol _ "Portfolio s"]
    by (auto simp: ExecuteSecondOrderTrade_def Let_def SetHoldings_def Debug_def
        StopMarketOrder_def current_positions_def split: if_splits)
  then show ?thesis using True Execute_max_positions [OF assms(1)] by simp
qed

text \<open>
  C10. The capacity guard of \<open>ExecuteSecondOrderTrade\<close> counts the invested holdings
  of the whole portfolio: whenever their number is at least \<open>max_positions\<close>, the call
  for an added symbol returns with the state unchanged, whatever the tracked second-order
  positions are (also when there are fewer of them than \<open>max_positions\<close>, or none).
\<close>

theorem capacity_guard_counts_all_holdings_C10:
  "symbol \<in> fst ` set (Portfolio s) \<Longrightarrow> max_positions s \<le> current_positions s \<Longrightarrow>
   ExecuteSecondOrderTrade (s\<lparr>second_order_positions := tracked\<rparr>) symbol dir why conf
     = Inr (s\<lparr>second_order_positions := tracked\<rparr>)"
  by (rule Execute_refused) (simp_all add: current_positions_def)

theorem capacity_guard_counts_all_holdings_C10_witness:
  "''Z'' \<in> fst ` set (Portfolio full_algo) \<and> max_positions full_algo \<le> current_positions full_algo \<and>
   length ([] :: (string \<times> position) list) < max_positions full_algo \<and>
   ExecuteSecondOrderTrade (full_algo\<lparr>second_order_positions := []\<rparr>) ''Z'' ''LONG'' ''r'' 0.7
     = Inr (full_algo\<lparr>second_order_positions := []\<rparr>)"
proof -
  have a: "''Z'' \<in> fst ` set (Portfolio full_algo)"
    by (simp add: full_algo_def)
  have b: "max_positions full_algo \<le> current_positions full_algo"
    by (simp add: full_algo_def xab_algo_def engine0_def current_positions_def)
  have c: "length ([] :: (string \<times> position) list) < max_positions full_algo"
    by (simp add: full_algo_def xab_algo_def engine0_def)
  show ?thesis
    using a b c capacity_guard_counts_all_holdings_C10 [OF a b, of "[]" "''LONG''" "''r''" "0.7"]
    by simp
qed

lemma Execute_opens:
  assumes "symbol \<in> fst ` set (Portfolio s)" and "\<not> Invested s symbol"
    and "current_positions s < max_positions s"
  shows "ExecuteSecondOrderTrade s symbol ''LONG'' why conf =
           Inr (s\<lparr>Portfolio := AList.update symbol
                                 (fill_quantity s symbol (position_size s * second_order_multiplier s * conf))
                                 (Portfolio s),
                   order_log := order_log s @
                     [SetHoldingsOrder symbol (position_size s * second_order_multiplier s * conf),
                      StopMarket symbol
                        (- fill_quantity s symbol (position_size s * second_order_multiplier s * conf))
                        (Price s symbol * 0.95)],
                   debug_log := debug_log s @
                     [SecondOrderLong symbol why (position_size s * second_order_multiplier s * conf)],
                   second_order_positions := AList.update symbol
                       \<lparr>entry_time = Time s, direction = ''LONG'', reason = why, p_confidence = conf\<rparr>
                       (second_order_positions s)\<rparr>)"
    and "ExecuteSecondOrderTrade s symbol ''SHORT'' why conf =
           Inr (s\<lparr>Portfolio := AList.update symbol
                                 (fill_quantity s symbol (- (position_size s * second_order_multiplier s * conf)))
                                 (Portfolio s),
                   order_log := order_log s @
                     [SetHoldingsOrder symbol (- (position_size s * second_order_multiplier s * conf)),
                      StopMarket symbol
                        (fill_quantity s symbol (- (position_size s * second_order_multiplier s * conf)))
                        (Price s symbol * 1.05)],
                   debug_log := debug_log s @
                     [SecondOrderShort symbol why (position_size s * second_order_multiplier s * conf)],
                   second_order_positions := AList.update symbol
                       \<lparr>entry_time = Time s, direction = ''SHORT'', reason = why, p_confidence = conf\<rparr>
                       (second_order_positions s)\<rparr>)"
  using assms
  by (simp_all add: ExecuteSecondOrderTrade_def Let_def SetHoldings_def Debug_def
      StopMarketOrder_def Quantity_def Quantity_update)

lemma stop_prices_append: "stop_prices (xs @ ys) = stop_prices xs @ stop_prices ys"
  by (induction xs rule: stop_prices.induct) simp_all

text \<open>
  C3, amended. \<open>ExecuteSecondOrderTrade\<close> receives a symbol, a direction, a reason and a
  confidence, and no trade signal: the stop-loss and take-profit percentages of a signal do
  not reach the order code. Whenever it opens a position (the symbol is added, not invested,
  and the capacity is not reached), the one stop-market order it submits has its stop price
  at a fixed 5% from the current price, whatever the confidence: 0.95 times the current price
  for LONG, and, the offset inverted, 1.05 times the current price for SHORT.
\<close>

theorem stop_price_is_fixed_five_percent_C3:
  assumes "symbol \<in> fst ` set (Portfolio s)" and "\<not> Invested s symbol"
    and "current_positions s < max_positions s"
  shows "stop_prices (orders_of (ExecuteSecondOrderTrade s symbol ''LONG'' why conf)) =
           stop_prices (order_log s) @ [(symbol, Price s symbol * 0.95)] \<and>
         stop_prices (orders_of (ExecuteSecondOrderTrade s symbol ''SHORT'' why conf)) =
           stop_prices (order_log s) @ [(symbol, Price s symbol * 1.05)]"
  using Execute_opens [OF assms] by (simp add: orders_of_def stop_prices_append)

text \<open>
  C3, as stated, fails. The signal generator gives the entity A of \<open>a_map\<close>, of
  confidence 0.7, a BUY signal with a stop loss of 3%. Opening the long position in A at
  price 100 with that confidence submits a stop at 95, which is 5% below the entry price,
  and not at 97, which is 3% below it.
\<close>

theorem stop_ignores_signal_counterexample_C3:
  "map s_ticker (generate_trade_signals a_map) = [''A''] \<and>
   map action (generate_trade_signals a_map) = [''BUY''] \<and>
   map stop_loss (generate_trade_signals a_map) = [0.03] \<and>
   Price xab_algo ''A'' = 100 \<and>
   stop_prices (orders_of (ExecuteSecondOrderTrade xab_algo ''A'' ''LONG'' ''r'' 0.7)) =
     [(''A'', 95)] \<and>
   (95::real) \<noteq> 100 * (1 - 0.03)"
proof -
  have a: "''A'' \<in> fst ` set (Portfolio xab_algo)" "\<not> Invested xab_algo ''A''"
    "current_positions xab_algo < max_positions xab_algo"
    by (simp_all add: xab_algo_def engine0_def Invested_def Quantity_def current_positions_def)
  have "stop_prices (orders_of (ExecuteSecondOrderTrade xab_algo ''A'' ''LONG'' ''r'' 0.7)) =
          [(''A'', 95)]"
    using Execute_opens(1) [OF a, of "''r''" "0.7"]
    by (simp add: orders_of_def xab_algo_def engine0_def)
  moreover have "map s_ticker (generate_trade_signals a_map) = [''A''] \<and>
   map action (generate_trade_signals a_map) = [''BUY''] \<and>
   map stop_loss (generate_trade_signals a_map) = [0.03]"
    by (simp add: a_map_def generate_trade_signals_def sorted_reverse_def candidates_def
      all_entities_def passes_def make_signal_def determine_strategy_def)
  moreover have "Price xab_algo ''A'' = 100" by (simp add: xab_algo_def engine0_def)
  ultimately show ?thesis by simp
qed

text \<open>The amended C3 at a long and at a short position in A, at price 100 and confidence 0.5.\<close>

theorem stop_price_is_fixed_five_percent_C3_witness:
  "''A'' \<in> fst ` set (Portfolio xab_algo) \<and> \<not> Invested xab_algo ''A'' \<and>
   current_positions xab_algo < max_positions xab_algo \<and>
   stop_prices (orders_of (ExecuteSecondOrderTrade xab_algo ''A'' ''LONG'' ''r'' 0.5)) =
     [(''A'', 95)] \<and>
   stop_prices (orders_of (ExecuteSecondOrderTrade xab_algo ''A'' ''SHORT'' ''r'' 0.5)) =
     [(''A'', 105)]"
proof -
  have a: "''A'' \<in> fst ` set (Portfolio xab_algo)"
    and b: "\<not> Invested xab_algo ''A''"
    and c: "current_positions xab_algo < max_positions xab_algo"
    by (simp_all add: xab_algo_def engine0_def Invested_def Quantity_def current_positions_def)
  show ?thesis
    using a b c stop_price_is_fixed_five_percent_C3 [OF a b c, of "''r''" "0.5"]
    by (simp add: xab_algo_def engine0_def)
qed

subsection \<open>The cap on invested holdings\<close>

lemma Execute_capped:
  "ExecuteSecondOrderTrade s symbol dir why conf = Inr s' \<Longrightarrow> capped n s \<Longrightarrow> capped n s'"
  using Execute_count [of s symbol dir why conf s'] Execute_max_positions [of s symbol dir why conf s']
  by (auto simp: capped_def)

lemma trade_each_capped:
  "trade_each ts data dir why conf s = Inr s' \<Longrightarrow> capped n s \<Longrightarrow> capped n s'"
proof (induction ts arbitrary: s)
  case Nil
  then show ?case by simp
next
  case (Cons t ts)
  then show ?case
    by (auto split: if_splits sum.splits dest: Execute_capped)
qed

lemma Debug_capped: "capped n (Debug m s) = capped n s"
  by (simp add: capped_def Debug_def current_positions_def)

lemma observe_capped: "capped n (observe m s) = capped n s"
  by (simp add: capped_def observe_def current_positions_def)

lemma Trigger_capped:
  "TriggerSecondOrderTrades s p mv data = Inr s' \<Longrightarrow> capped n s \<Longrightarrow> capped n s'"
  by (auto simp: TriggerSecondOrderTrades_def split: option.splits if_splits sum.splits
      dest: trade_each_capped)

lemma OnData_loop_capped:
  "OnData_loop syms data s = Inr s' \<Longrightarrow> capped n s \<Longrightarrow> capped n s'"
proof (induction syms arbitrary: s)
  case Nil
  then show ?case by simp
next
  case (Cons a syms)
  show ?case
  proof (cases "ContainsKey data a \<and> Bars data a \<and> \<bar>UnrealizedProfitPercent s a\<bar> > 0.05")
    case False
    then have "OnData_loop syms data s = Inr s'"
      using Cons.prems(1) by (auto simp: Let_def split: if_splits)
    then show ?thesis using Cons.IH Cons.prems(2) by blast
  next
    case True
    then obtain s1 where
      t: "TriggerSecondOrderTrades (Debug (PrimaryEventDetected a (UnrealizedProfitPercent s a)) s)
            a (UnrealizedProfitPercent s a) data = Inr s1"
      and r: "OnData_loop syms data s1 = Inr s'"
      using Cons.prems(1) by (auto simp: Let_def split: if_splits sum.splits)
    have "capped n s1"
      using Trigger_capped [OF t] Cons.prems(2) by (simp add: Debug_capped)
    then show ?thesis using Cons.IH [OF r] by blast
  qed
qed

lemma analyze_ticker_capped:
  "capped n s \<Longrightarrow> capped n (analyze_ticker p mv category t s)"
  by (auto simp: analyze_ticker_def Let_def split: option.splits sum.splits dest: Execute_capped)

lemma fold_capped:
  "(\<And>x s. capped n s \<Longrightarrow> capped n (f x s)) \<Longrightarrow> capped n s \<Longrightarrow> capped n (fold f xs s)"
  by (induction xs arbitrary: s) auto

lemma Analyze_capped:
  "capped n s \<Longrightarrow> capped n (AnalyzeSecondOrderOpportunities s p mv)"
  unfolding AnalyzeSecondOrderOpportunities_def
  by (auto split: option.splits intro!: fold_capped analyze_ticker_capped)

lemma detect_symbol_capped:
  "capped n s \<Longrightarrow> capped n (detect_symbol symbol s)"
  by (auto simp: detect_symbol_def Debug_capped split: option.splits intro!: Analyze_capped)

lemma Detect_capped:
  "capped n s \<Longrightarrow> capped n (DetectSecondOrderEffects s)"
  unfolding DetectSecondOrderEffects_def
  by (auto intro!: fold_capped detect_symbol_capped)

lemma close_one_capped: "capped n s \<Longrightarrow> capped n (close_one a s)"
  using count_update_zero_le [of a "Portfolio s"]
  by (simp add: capped_def close_one_def Debug_def Liquidate_def current_positions_def)

lemma close_positions_capped:
  "close_positions syms s = Inr s' \<Longrightarrow> capped n s \<Longrightarrow> capped n s'"
proof (induction syms arbitrary: s)
  case Nil
  then show ?case by simp
next
  case (Cons a syms)
  then show ?case
    by (auto split: if_splits dest: close_one_capped)
qed

lemma handle_capped:
  "handle c s = Inr s' \<Longrightarrow> capped n s \<Longrightarrow> capped n s'"
proof (cases c)
  case (OnDataCall m data)
  then show "handle c s = Inr s' \<Longrightarrow> capped n s \<Longrightarrow> capped n s'"
    using OnData_loop_capped [of _ data "observe m s" s' n]
    by (simp add: OnData_def observe_capped)
next
  case (ScheduledCall m)
  then show "handle c s = Inr s' \<Longrightarrow> capped n s \<Longrightarrow> capped n s'"
    using Detect_capped [of n "observe m s"] by (auto simp: observe_capped)
next
  case (EndOfDayCall m symbol)
  then show "handle c s = Inr s' \<Longrightarrow> capped n s \<Longrightarrow> capped n s'"
    using close_positions_capped [of _ "observe m s" s' n]
    by (simp add: OnEndOfDay_def observe_capped)
qed

lemma run_capped:
  "run cs s = Inr s' \<Longrightarrow> capped n s \<Longrightarrow> capped n s'"
proof (induction cs arbitrary: s)
  case Nil
  then show ?case by simp
next
  case (Cons c cs)
  then show ?case by (auto split: sum.splits dest: handle_capped)
qed

lemma AddEquity_count: "current_positions (AddEquity t s) = current_positions s"
  by (simp add: AddEquity_def current_positions_def)

lemma add_primary_count:
  "add_primary ts s = Inr s' \<Longrightarrow> current_positions s' = current_positions s"
  by (induction ts arbitrary: s) (auto split: if_splits simp: AddEquity_count)

lemma Debug_count: "current_positions (Debug m s) = current_positions s"
  by (simp add: Debug_def current_positions_def)

lemma add_related_count:
  "current_positions (add_related ts s) = current_positions s"
  by (induction ts arbitrary: s) (simp_all add: AddEquity_count Debug_count)

lemma Initialize_capped:
  assumes "Initialize s0 = Inr s1" and "current_positions s0 = 0"
  shows "capped 10 s1" and "current_positions s1 = 0"
proof -
  obtain s2 where a: "add_primary [''AAPL'', ''TSLA'', ''NVDA'', ''MSFT'', ''AMZN'']
                        (s0\<lparr>supply_chains := chains_literal,
                            primary_movers := [''AAPL'', ''TSLA'', ''NVDA'', ''MSFT'', ''AMZN'']\<rparr>) = Inr s2"
    and b: "s1 = (add_related (remdups (concat (map (\<lambda>chain. concat (map snd (snd chain)))
                                                   (supply_chains s2)))) s2)
                 \<lparr>max_positions := 10, position_size := 0.1,
                   second_order_multiplier := 0.6, second_order_positions := []\<rparr>"
    using assms(1) unfolding Initialize_def Let_def by (auto split: sum.splits)
  have "current_positions s2 = 0"
    using add_primary_count [OF a] assms(2) by (simp add: current_positions_def)
  then have "current_positions s1 = 0"
    using add_related_count [of _ s2] unfolding b by (simp add: current_positions_def)
  then show "capped 10 s1" and "current_positions s1 = 0"
    unfolding b by (simp_all add: capped_def)
qed

lemmas algo_eval = ExecuteSecondOrderTrade_def Let_def SetHoldings_def Debug_def
  StopMarketOrder_def Quantity_def Invested_def current_positions_def get_list_def
  TriggerSecondOrderTrades_def OnData_def observe_def xab_algo_def engine0_def
  full_slice_def x_market_def

text \<open>
  C8. An open position is an invested holding of the portfolio, which is what the entry
  guards of \<open>ExecuteSecondOrderTrade\<close> test. \<open>Initialize\<close> on an engine that
  holds nothing sets the cap to 10 with no open position; from any state within its cap,
  every run of the handlers that completes, and every single trade attempt, ends within the
  same cap; and an attempt for a symbol that is already invested, or made when the number
  of open positions has reached the cap, returns with the state unchanged.
\<close>

theorem open_positions_capped_C8:
  "(Initialize s0 = Inr s1 \<longrightarrow> current_positions s0 = 0 \<longrightarrow> capped 10 s1) \<and>
   (capped n s \<longrightarrow> run cs s = Inr s' \<longrightarrow> max_positions s' = n \<and> current_positions s' \<le> n) \<and>
   (capped n s \<longrightarrow> ExecuteSecondOrderTrade s symbol dir why conf = Inr s'' \<longrightarrow>
      max_positions s'' = n \<and> current_positions s'' \<le> n) \<and>
   (symbol \<in> fst ` set (Portfolio s) \<longrightarrow>
      Invested s symbol \<or> max_positions s \<le> current_positions s \<longrightarrow>
      ExecuteSecondOrderTrade s symbol dir why conf = Inr s)"
proof (intro conjI impI)
  assume "Initialize s0 = Inr s1" and "current_positions s0 = 0"
  then show "capped 10 s1" by (rule Initialize_capped)
next
  assume "capped n s" and "run cs s = Inr s'"
  then have "capped n s'" using run_capped by blast
  then show "max_positions s' = n" and "current_positions s' \<le> n"
    by (simp_all add: capped_def)
next
  assume "capped n s" and "ExecuteSecondOrderTrade s symbol dir why conf = Inr s''"
  then have "capped n s''" using Execute_capped by blast
  then show "max_positions s'' = n" and "current_positions s'' \<le> n"
    by (simp_all add: capped_def)
next
  assume "symbol \<in> fst ` set (Portfolio s)"
    and "Invested s symbol \<or> max_positions s \<le> current_positions s"
  then show "ExecuteSecondOrderTrade s symbol dir why conf = Inr s"
    by (rule Execute_refused)
qed

theorem open_positions_capped_C8_witness:
  "current_positions engine0 = 0 \<and>
   (\<exists>s1. Initialize engine0 = Inr s1 \<and> capped 10 s1) \<and>
   capped 10 xab_algo \<and>
   (\<exists>s'. run [OnDataCall (x_market 7) full_slice] xab_algo = Inr s' \<and>
         max_positions s' = 10 \<and> current_positions s' \<le> 10) \<and>
   (\<exists>s''. ExecuteSecondOrderTrade xab_algo ''A'' ''LONG'' ''r'' 0.7 = Inr s'' \<and>
         max_positions s'' = 10 \<and> current_positions s'' \<le> 10) \<and>
   ''Z'' \<in> fst ` set (Portfolio full_algo) \<and>
   max_positions full_algo \<le> current_positions full_algo \<and>
   ExecuteSecondOrderTrade full_algo ''Z'' ''LONG'' ''r'' 0.7 = Inr full_algo"
proof -
  have e0: "current_positions engine0 = 0"
    by (simp add: engine0_def current_positions_def)
  obtain s1 where i: "Initialize engine0 = Inr s1"
    by (simp add: Initialize_def engine0_def chains_literal_def AddEquity_def Debug_def Let_def)
  have c: "capped 10 xab_algo"
    by (simp add: capped_def xab_algo_def engine0_def current_positions_def)
  obtain s' where r: "run [OnDataCall (x_market 7) full_slice] xab_algo = Inr s'"
    by (simp add: algo_eval)
  obtain s'' where x: "ExecuteSecondOrderTrade xab_algo ''A'' ''LONG'' ''r'' 0.7 = Inr s''"
    by (simp add: algo_eval)
  have z: "''Z'' \<in> fst ` set (Portfolio full_algo)"
    by (simp add: full_algo_def)
  have f: "max_positions full_algo \<le> current_positions full_algo"
    by (simp add: full_algo_def xab_algo_def engine0_def current_positions_def)
  note t = open_positions_capped_C8
  show ?thesis
    using e0 i c r x z f
      t [of engine0 s1 10 xab_algo "[OnDataCall (x_market 7) full_slice]" s'
           "''A''" "''LONG''" "''r''" "0.7" s'']
      t [of engine0 s1 10 full_algo "[]" full_algo "''Z''" "''LONG''" "''r''" "0.7" full_algo]
    by simp
qed

subsection \<open>The end-of-day sweep\<close>

lemma td_days_below_six:
  assumes "t - t0 < 6 * one_day"
  shows "td_days (t - t0) \<le> 5"
  using assms unfolding td_days_def one_day_def by linarith

lemma td_days_five:
  assumes "5 * one_day < t - t0" and "t - t0 < 6 * one_day"
  shows "td_days (t - t0) = 5"
  using assms unfolding td_days_def one_day_def by linarith

lemma td_days_after_six:
  assumes "6 * one_day \<le> t - t0"
  shows "5 < td_days (t - t0)"
  using assms unfolding td_days_def one_day_def by linarith

lemma close_one_simps:
  "Time (close_one sy s) = Time s"
  "Portfolio (close_one sy s) = AList.update sy 0 (Portfolio s)"
  "second_order_positions (close_one sy s) = AList.delete sy (second_order_positions s)"
  "order_log (close_one sy s) = order_log s @ [LiquidateOrder sy]"
  by (simp_all add: close_one_def Debug_def Liquidate_def)

lemma close_one_keys:
  "sy \<in> fst ` set (Portfolio s) \<Longrightarrow>
   fst ` set (Portfolio (close_one sy s)) = fst ` set (Portfolio s)"
  by (auto simp: close_one_simps dom_update)

lemma close_one_Quantity:
  "Quantity (close_one sy s) x = (if x = sy then 0 else Quantity s x)"
  by (simp add: Quantity_def close_one_simps update_conv')

lemma close_one_tracked:
  "x \<noteq> sy \<Longrightarrow>
   map_of (second_order_positions (close_one sy s)) x = map_of (second_order_positions s) x"
  by (simp add: close_one_simps)

lemma close_one_subset:
  "set (second_order_positions (close_one sy s)) \<subseteq> set (second_order_positions s)"
  by (auto simp: close_one_simps AList.delete_eq)

lemma close_one_untracked:
  "sy \<notin> fst ` set (second_order_positions (close_one sy s))"
  by (simp add: close_one_simps delete_notin_dom)

lemma close_positions_total:
  "set syms \<subseteq> fst ` set (Portfolio s) \<Longrightarrow> \<exists>s'. close_positions syms s = Inr s'"
proof (induction syms arbitrary: s)
  case Nil
  then show ?case by simp
next
  case (Cons a syms)
  then have a: "a \<in> fst ` set (Portfolio s)" and r: "set syms \<subseteq> fst ` set (Portfolio s)"
    by simp_all
  have "set syms \<subseteq> fst ` set (Portfolio (close_one a s))"
    using r close_one_keys [OF a] by simp
  then show ?case
    using Cons.IH [of "close_one a s"] Cons.IH [of s] a r
    by auto
qed

lemma close_positions_frame:
  "close_positions syms s = Inr s' \<Longrightarrow>
     Time s' = Time s \<and>
     fst ` set (Portfolio s') = fst ` set (Portfolio s) \<and>
     set syms \<subseteq> fst ` set (Portfolio s) \<and>
     set (second_order_positions s') \<subseteq> set (second_order_positions s) \<and>
     set (order_log s) \<subseteq> set (order_log s') \<and>
     (Quantity s x = 0 \<longrightarrow> Quantity s' x = 0) \<and>
     (x \<notin> set syms \<longrightarrow> Quantity s' x = Quantity s x \<and>
        map_of (second_order_positions s') x = map_of (second_order_positions s) x)"
proof (induction syms arbitrary: s)
  case Nil
  then show ?case by simp
next
  case (Cons a syms)
  have a: "a \<in> fst ` set (Portfolio s)"
    using Cons.prems by (auto split: if_splits)
  show ?case
  proof (cases "Invested s a")
    case False
    then have "close_positions syms s = Inr s'"
      using Cons.prems a by (simp split: if_splits)
    then show ?thesis using Cons.IH [of s] a by auto
  next
    case True
    then have r: "close_positions syms (close_one a s) = Inr s'"
      using Cons.prems a by (simp split: if_splits)
    show ?thesis
      using Cons.IH [OF r] a close_one_keys [OF a] close_one_subset [of a s]
        close_one_Quantity [of a s x] close_one_tracked [of x a s]
      by (auto simp: close_one_simps)
  qed
qed

lemma close_positions_closes:
  "x \<in> set syms \<Longrightarrow> close_positions syms s = Inr s' \<Longrightarrow>
     \<not> Invested s' x \<and>
     (Invested s x \<longrightarrow> x \<notin> fst ` set (second_order_positions s') \<and>
        LiquidateOrder x \<in> set (order_log s'))"
proof (induction syms arbitrary: s)
  case Nil
  then show ?case by simp
next
  case (Cons a syms)
  have a: "a \<in> fst ` set (Portfolio s)"
    using Cons.prems by (auto split: if_splits)
  show ?case
  proof (cases "Invested s a")
    case False
    then have r: "close_positions syms s = Inr s'"
      using Cons.prems a by (simp split: if_splits)
    show ?thesis
    proof (cases "x = a")
      case True
      then show ?thesis
        using close_positions_frame [OF r, of x] False by (simp add: Invested_def)
    next
      case neq: False
      then show ?thesis using Cons.IH [OF _ r] Cons.prems(1) by simp
    qed
  next
    case True
    then have r: "close_positions syms (close_one a s) = Inr s'"
      using Cons.prems a by (simp split: if_splits)
    show ?thesis
    proof (cases "x = a")
      case xa: True
      have "Quantity s' x = 0"
        using close_positions_frame [OF r, of x] xa by (simp add: close_one_Quantity)
      moreover have "x \<notin> fst ` set (second_order_positions s')"
        using close_positions_frame [OF r, of x] close_one_untracked [of a s] xa by auto
      moreover have "LiquidateOrder x \<in> set (order_log s')"
        using close_positions_frame [OF r, of x] xa by (auto simp: close_one_simps)
      ultimately show ?thesis by (simp add: Invested_def)
    next
      case neq: False
      then have "Invested (close_one a s) x = Invested s x"
        by (simp add: Invested_def close_one_Quantity)
      then show ?thesis using Cons.IH [OF _ r] Cons.prems(1) neq by simp
    qed
  qed
qed

lemma close_positions_noop:
  "\<forall>x \<in> set syms. x \<in> fst ` set (Portfolio s) \<and> \<not> Invested s x \<Longrightarrow>
   close_positions syms s = Inr s"
  by (induction syms) auto

lemma OnEndOfDay_idempotent:
  assumes "OnEndOfDay s x = Inr s'"
  shows "OnEndOfDay s' y = Inr s'"
proof -
  have r: "close_positions (positions_to_close s) s = Inr s'"
    using assms by (simp add: OnEndOfDay_def)
  have sub: "set (positions_to_close s') \<subseteq> set (positions_to_close s)"
    using close_positions_frame [OF r]
    by (auto simp: positions_to_close_def holding_period_def)
  have "\<forall>z \<in> set (positions_to_close s'). z \<in> fst ` set (Portfolio s') \<and> \<not> Invested s' z"
  proof
    fix z assume "z \<in> set (positions_to_close s')"
    then have z: "z \<in> set (positions_to_close s)" using sub by blast
    have "z \<in> fst ` set (Portfolio s')"
      using close_positions_frame [OF r] z by blast
    moreover have "\<not> Invested s' z"
      using close_positions_closes [OF z r] by simp
    ultimately show "z \<in> fst ` set (Portfolio s') \<and> \<not> Invested s' z" by simp
  qed
  then show ?thesis
    unfolding OnEndOfDay_def by (rule close_positions_noop)
qed

lemma positions_to_close_iff:
  assumes "distinct (map fst (second_order_positions s))"
    and "map_of (second_order_positions s) sy = Some info"
  shows "sy \<in> set (positions_to_close s) \<longleftrightarrow> 5 < holding_period s info"
proof
  assume "sy \<in> set (positions_to_close s)"
  then obtain i where i: "(sy, i) \<in> set (second_order_positions s)" and h: "5 < holding_period s i"
    by (auto simp: positions_to_close_def)
  have "map_of (second_order_positions s) sy = Some i"
    using assms(1) i by simp
  then show "5 < holding_period s info" using assms(2) h by simp
next
  assume "5 < holding_period s info"
  moreover have "(sy, info) \<in> set (second_order_positions s)"
    using assms(2) by (rule map_of_SomeD)
  ultimately show "sy \<in> set (positions_to_close s)"
    by (force simp: positions_to_close_def)
qed

text \<open>
  What the sweep does to a tracked position (the tracked symbols being distinct and added to
  the engine). It returns. Its test reads the \<open>.days\<close> attribute of the time elapsed
  since the entry, the whole days only, and asks for more than 5 of them: so the position is
  left tracked and untouched as long as less than six full days have elapsed, and it is
  liquidated and forgotten, if still invested, once six full days have elapsed. Sweeping
  again changes nothing: what is closed stays closed.
\<close>

lemma OnEndOfDay_sweep:
  assumes d: "distinct (map fst (second_order_positions s))"
    and t: "map_of (second_order_positions s) sy = Some info"
    and k: "fst ` set (second_order_positions s) \<subseteq> fst ` set (Portfolio s)"
  shows "\<exists>s'. OnEndOfDay s x = Inr s' \<and>
           (Time s - entry_time info < 6 * one_day \<longrightarrow>
              map_of (second_order_positions s') sy = Some info \<and>
              Quantity s' sy = Quantity s sy) \<and>
           (6 * one_day \<le> Time s - entry_time info \<longrightarrow> Invested s sy \<longrightarrow>
              sy \<notin> fst ` set (second_order_positions s') \<and> \<not> Invested s' sy \<and>
              LiquidateOrder sy \<in> set (order_log s')) \<and>
           OnEndOfDay s' y = Inr s'"
proof -
  have "set (positions_to_close s) \<subseteq> fst ` set (Portfolio s)"
    using k by (auto simp: positions_to_close_def)
  then obtain s' where r: "close_positions (positions_to_close s) s = Inr s'"
    using close_positions_total by blast
  have e: "OnEndOfDay s x = Inr s'" using r by (simp add: OnEndOfDay_def)
  have early: "map_of (second_order_positions s') sy = Some info \<and> Quantity s' sy = Quantity s sy"
    if "Time s - entry_time info < 6 * one_day"
  proof -
    have "\<not> 5 < holding_period s info"
      using td_days_below_six [OF that] by (simp add: holding_period_def)
    then have "sy \<notin> set (positions_to_close s)"
      using positions_to_close_iff [OF d t] by simp
    then show ?thesis using close_positions_frame [OF r, of sy] t by simp
  qed
  have late: "sy \<notin> fst ` set (second_order_positions s') \<and> \<not> Invested s' sy \<and>
              LiquidateOrder sy \<in> set (order_log s')"
    if "6 * one_day \<le> Time s - entry_time info" and "Invested s sy"
  proof -
    have "5 < holding_period s info"
      using td_days_after_six [OF that(1)] by (simp add: holding_period_def)
    then have "sy \<in> set (positions_to_close s)"
      using positions_to_close_iff [OF d t] by simp
    then show ?thesis using close_positions_closes [OF _ r] that(2) by simp
  qed
  have "OnEndOfDay s' y = Inr s'" using e by (rule OnEndOfDay_idempotent)
  then show ?thesis using e early late by blast
qed

text \<open>
  C2: the code misses the claim. The exit rule is a holding period above 5 days, and the
  message of the sweep says that the position is closed after 5 days, but the holding period
  is read from the \<open>.days\<close> attribute of the elapsed time, which drops the hours. For
  every tracked position whose holding period is above five days and below six, the
  attribute is 5, the test \<open>> 5\<close> fails, and the sweep leaves the position tracked and
  its holding untouched. A position opened on day D in the morning is in this case at the
  sweep of day D+5, so it is still open after that sweep.
\<close>

theorem sweep_keeps_position_past_five_days_C2:
  assumes d: "distinct (map fst (second_order_positions s))"
    and t: "map_of (second_order_positions s) sy = Some info"
    and k: "fst ` set (second_order_positions s) \<subseteq> fst ` set (Portfolio s)"
    and over: "5 * one_day < Time s - entry_time info"
    and below: "Time s - entry_time info < 6 * one_day"
  shows "holding_period s info = 5 \<and>
         (\<exists>s'. OnEndOfDay s x = Inr s' \<and>
               map_of (second_order_positions s') sy = Some info \<and>
               Quantity s' sy = Quantity s sy)"
proof -
  have "holding_period s info = 5"
    using td_days_five [OF over below] by (simp add: holding_period_def)
  then show ?thesis
    using OnEndOfDay_sweep [OF d t k, of x x] below by blast
qed

lemmas sweep_eval = OnEndOfDay_def positions_to_close_def holding_period_def td_days_def
  observe_def x_market_def held_algo_def xab_algo_def engine0_def a_position_def at_time_def
  seconds_def Invested_def Quantity_def close_one_def Debug_def Liquidate_def

text \<open>
  The position of \<open>held_algo\<close> was opened on day 0 at 09:45. At the sweep of day 5, at
  15:50, it has been held for 5 days, 6 hours and 5 minutes, and the sweep leaves it open
  with its 42 shares.
\<close>

theorem sweep_keeps_position_past_five_days_C2_witness:
  "distinct (map fst (second_order_positions (observe (x_market (at_time 5 15 50)) held_algo))) \<and>
   map_of (second_order_positions (observe (x_market (at_time 5 15 50)) held_algo)) ''A'' =
     Some a_position \<and>
   fst ` set (second_order_positions (observe (x_market (at_time 5 15 50)) held_algo))
     \<subseteq> fst ` set (Portfolio (observe (x_market (at_time 5 15 50)) held_algo)) \<and>
   Time (observe (x_market (at_time 5 15 50)) held_algo) - entry_time a_position =
     5 * one_day + seconds (6 * 3600 + 5 * 60) \<and>
   holding_period (observe (x_market (at_time 5 15 50)) held_algo) a_position = 5 \<and>
   (\<exists>s'. OnEndOfDay (observe (x_market (at_time 5 15 50)) held_algo) ''A'' = Inr s' \<and>
         map_of (second_order_positions s') ''A'' = Some a_position \<and>
         Quantity s' ''A'' = 42)"
proof -
  define s5 where "s5 = observe (x_market (at_time 5 15 50)) held_algo"
  have d: "distinct (map fst (second_order_positions s5))"
    and t: "map_of (second_order_positions s5) ''A'' = Some a_position"
    and k: "fst ` set (second_order_positions s5) \<subseteq> fst ` set (Portfolio s5)"
    and q: "Quantity s5 ''A'' = 42"
    by (simp_all add: s5_def observe_def held_algo_def Quantity_def)
  have e: "Time s5 - entry_time a_position = 5 * one_day + seconds (6 * 3600 + 5 * 60)"
    by (simp add: s5_def observe_def x_market_def a_position_def at_time_def seconds_def
        one_day_def)
  have over: "5 * one_day < Time s5 - entry_time a_position"
    and below: "Time s5 - entry_time a_position < 6 * one_day"
    unfolding e by (simp_all add: seconds_def one_day_def)
  show ?thesis
    using d t k e q sweep_keeps_position_past_five_days_C2 [OF d t k over below, of "''A''"]
    unfolding s5_def [symmetric] by simp
qed

text \<open>
  The same through the handlers: after the sweeps of days 0 to 5, each at 15:50, the position
  is still tracked, still holds its 42 shares, and no order was placed. The sweep of day 6
  closes it.
\<close>

lemma still_open_after_sweep_of_day_5:
  "positions_of (run sweeps_to_day_5 held_algo) = [(''A'', a_position)] \<and>
   holdings_of (run sweeps_to_day_5 held_algo) = [(''X'', 0), (''A'', 42), (''B'', 0)] \<and>
   orders_of (run sweeps_to_day_5 held_algo) = []"
  by (simp add: sweeps_to_day_5_def positions_of_def holdings_of_def orders_of_def sweep_eval)

lemma closed_at_sweep_of_day_6:
  "\<exists>s'. OnEndOfDay day_6_algo ''A'' = Inr s' \<and>
        ''A'' \<notin> fst ` set (second_order_positions s') \<and> \<not> Invested s' ''A'' \<and>
        LiquidateOrder ''A'' \<in> set (order_log s') \<and>
        OnEndOfDay s' ''A'' = Inr s'"
proof -
  have d: "distinct (map fst (second_order_positions day_6_algo))"
    and t: "map_of (second_order_positions day_6_algo) ''A'' = Some a_position"
    and k: "fst ` set (second_order_positions day_6_algo) \<subseteq> fst ` set (Portfolio day_6_algo)"
    by (simp_all add: day_6_algo_def held_algo_def)
  have l: "6 * one_day \<le> Time day_6_algo - entry_time a_position"
    by (simp add: day_6_algo_def a_position_def at_time_def seconds_def one_day_def)
  have i: "Invested day_6_algo ''A''"
    by (simp add: day_6_algo_def held_algo_def Invested_def Quantity_def)
  show ?thesis
    using l i OnEndOfDay_sweep [OF d t k, of "''A''" "''A''"] by blast
qed

subsection \<open>The graph-only path\<close>

lemma map_of_zero_added:
  "map_of al k = Some (0::real) \<Longrightarrow> k \<in> fst ` set al"
  by (meson domI domIff map_of_eq_None_iff)

text \<open>
  C4, amended. Take the graph in which X has the one supplier A and the one competitor B.
  The graph lookup of the mapper for an earnings beat of X marks A positive and B negative,
  with impact scores 0.7 and 0.5, and the signal generator turns the two records (A,
  positive, 0.7, confidence 0.5, lag 0) and (B, negative, 0.5, confidence 0.5, lag 0) into no
  signal. But no code builds these records, and the graph-only path of the algorithm,
  \<open>TriggerSecondOrderTrades\<close>, consults no collaborator and applies no confidence
  threshold: on a positive move of X, with A and B in the slice, not held, and room for two
  positions, it opens a long position in A with confidence 0.7 and a short position in B with
  confidence 0.5, each with its 5% stop.
\<close>

theorem graph_only_path_C4:
  assumes g: "map_of (supply_chains s) x = Some [(''suppliers'', [a]), (''competitors'', [b])]"
    and up: "0 < move"
    and da: "ContainsKey data a" and db: "ContainsKey data b"
    and ab: "a \<noteq> b"
    and pa: "map_of (Portfolio s) a = Some 0" and pb: "map_of (Portfolio s) b = Some 0"
    and room: "current_positions s + 1 < max_positions s"
  shows "get_affected_tickers \<lparr>relationships = supply_chains s\<rparr> x ''earnings_beat''
           = [(''positive'', [a]), (''negative'', [b])] \<and>
         calculate_impact_score mp x a ''suppliers'' = 0.7 \<and>
         calculate_impact_score mp x b ''competitors'' = 0.5 \<and>
         generate_trade_signals
           [(c1, [\<lparr>ticker = a, relationship = r1, impact_direction = ''positive'',
                   impact_magnitude = 0.7, confidence = 0.5, time_lag_days = 0,
                   rationale = w1\<rparr>]),
            (c2, [\<lparr>ticker = b, relationship = r2, impact_direction = ''negative'',
                   impact_magnitude = 0.5, confidence = 0.5, time_lag_days = 0,
                   rationale = w2\<rparr>])] = [] \<and>
         map_of (positions_of (TriggerSecondOrderTrades s x move data)) a
           = Some \<lparr>entry_time = Time s, direction = ''LONG'',
                   reason = x @ '' rally benefits supplier'', p_confidence = 0.7\<rparr> \<and>
         map_of (positions_of (TriggerSecondOrderTrades s x move data)) b
           = Some \<lparr>entry_time = Time s, direction = ''SHORT'',
                   reason = x @ '' rally hurts competitor'', p_confidence = 0.5\<rparr> \<and>
         orders_of (TriggerSecondOrderTrades s x move data)
           = order_log s @
             [SetHoldingsOrder a (position_size s * second_order_multiplier s * 0.7),
              StopMarket a (- fill_quantity s a (position_size s * second_order_multiplier s * 0.7))
                (Price s a * 0.95),
              SetHoldingsOrder b (- (position_size s * second_order_multiplier s * 0.5)),
              StopMarket b (fill_quantity s b (- (position_size s * second_order_multiplier s * 0.5)))
                (Price s b * 1.05)]"
proof -
  let ?sa = "position_size s * second_order_multiplier s * 0.7"
  have ka: "a \<in> fst ` set (Portfolio s)" and kb: "b \<in> fst ` set (Portfolio s)"
    using pa pb by (auto dest: map_of_zero_added)
  have na: "\<not> Invested s a" and nb: "\<not> Invested s b"
    using pa pb by (simp_all add: Invested_def Quantity_def)
  have ra: "current_positions s < max_positions s" using room by simp
  obtain s1 where e1: "ExecuteSecondOrderTrade s a ''LONG'' (x @ '' rally benefits supplier'') 0.7 = Inr s1"
    and s1: "s1 = s\<lparr>Portfolio := AList.update a (fill_quantity s a ?sa) (Portfolio s),
                   order_log := order_log s @
                     [SetHoldingsOrder a ?sa,
                      StopMarket a (- fill_quantity s a ?sa) (Price s a * 0.95)],
                   debug_log := debug_log s @
                     [SecondOrderLong a (x @ '' rally benefits supplier'') ?sa],
                   second_order_positions := AList.update a
                       \<lparr>entry_time = Time s, direction = ''LONG'',
                        reason = x @ '' rally benefits supplier'', p_confidence = 0.7\<rparr>
                       (second_order_positions s)\<rparr>"
    using Execute_opens(1) [OF ka na ra] by simp
  have kb1: "b \<in> fst ` set (Portfolio s1)"
    using kb by (simp add: s1 dom_update)
  have nb1: "\<not> Invested s1 b"
    using pb ab by (simp add: s1 Invested_def Quantity_def update_conv')
  have "capped (max_positions s) s" using room by (simp add: capped_def)
  have c1: "current_positions s1 \<le> Suc (current_positions s)"
    using count_update_le [of a _ "Portfolio s"] by (simp add: s1 current_positions_def)
  have rb1: "current_positions s1 < max_positions s1"
    using c1 room by (simp add: s1)
  have e2: "ExecuteSecondOrderTrade s1 b ''SHORT'' (x @ '' rally hurts competitor'') 0.5 =
          Inr (s1\<lparr>Portfolio := AList.update b
                       (fill_quantity s1 b (- (position_size s1 * second_order_multiplier s1 * 0.5)))
                       (Portfolio s1),
                   order_log := order_log s1 @
                     [SetHoldingsOrder b (- (position_size s1 * second_order_multiplier s1 * 0.5)),
                      StopMarket b
                        (fill_quantity s1 b (- (position_size s1 * second_order_multiplier s1 * 0.5)))
                        (Price s1 b * 1.05)],
                   debug_log := debug_log s1 @
                     [SecondOrderShort b (x @ '' rally hurts competitor'')
                        (position_size s1 * second_order_multiplier s1 * 0.5)],
                   second_order_positions := AList.update b
                       \<lparr>entry_time = Time s1, direction = ''SHORT'',
                        reason = x @ '' rally hurts competitor'', p_confidence = 0.5\<rparr>
                       (second_order_positions s1)\<rparr>)"
    by (rule Execute_opens(2) [OF kb1 nb1 rb1])
  have t: "TriggerSecondOrderTrades s x move data =
             ExecuteSecondOrderTrade s1 b ''SHORT'' (x @ '' rally hurts competitor'') 0.5"
    using g up da db e1 by (simp add: TriggerSecondOrderTrades_def get_list_def split: sum.splits)
  have trig: "map_of (positions_of (TriggerSecondOrderTrades s x move data)) a
           = Some \<lparr>entry_time = Time s, direction = ''LONG'',
                   reason = x @ '' rally benefits supplier'', p_confidence = 0.7\<rparr> \<and>
         map_of (positions_of (TriggerSecondOrderTrades s x move data)) b
           = Some \<lparr>entry_time = Time s, direction = ''SHORT'',
                   reason = x @ '' rally hurts competitor'', p_confidence = 0.5\<rparr> \<and>
         orders_of (TriggerSecondOrderTrades s x move data)
           = order_log s @
             [SetHoldingsOrder a ?sa,
              StopMarket a (- fill_quantity s a ?sa) (Price s a * 0.95),
              SetHoldingsOrder b (- (position_size s * second_order_multiplier s * 0.5)),
              StopMarket b (fill_quantity s b (- (position_size s * second_order_multiplier s * 0.5)))
                (Price s b * 1.05)]"
    unfolding t e2 using ab by (simp add: positions_of_def orders_of_def s1 update_conv')
  have m: "get_affected_tickers \<lparr>relationships = supply_chains s\<rparr> x ''earnings_beat''
           = [(''positive'', [a]), (''negative'', [b])]"
  proof -
    have "sublist ''earnings_beat'' (lower ''earnings_beat'')" by code_simp
    then show ?thesis using g by (simp add: get_affected_tickers_def get_list_def)
  qed
  have w: "calculate_impact_score mp x a ''suppliers'' = 0.7 \<and>
           calculate_impact_score mp x b ''competitors'' = 0.5"
    by (simp add: calculate_impact_score_def weights_def)
  have sg: "generate_trade_signals
           [(c1, [\<lparr>ticker = a, relationship = r1, impact_direction = ''positive'',
                   impact_magnitude = 0.7, confidence = 0.5, time_lag_days = 0,
                   rationale = w1\<rparr>]),
            (c2, [\<lparr>ticker = b, relationship = r2, impact_direction = ''negative'',
                   impact_magnitude = 0.5, confidence = 0.5, time_lag_days = 0,
                   rationale = w2\<rparr>])] = []"
    by (simp add: generate_trade_signals_def sorted_reverse_def candidates_def all_entities_def
        passes_def)
  show ?thesis using m w sg trig by blast
qed

lemmas trigger_eval = ExecuteSecondOrderTrade_def Let_def SetHoldings_def Debug_def
  StopMarketOrder_def Quantity_def Invested_def current_positions_def get_list_def
  TriggerSecondOrderTrades_def xab_algo_def engine0_def full_slice_def

text \<open>
  C4, as stated, fails: on the graph of the scenario and a move of +6% of X, two trades
  result, and the supplier is traded with confidence 0.7, not 0.5.
\<close>

theorem graph_only_path_trades_counterexample_C4:
  "positions_of (TriggerSecondOrderTrades xab_algo ''X'' 0.06 full_slice) =
     [(''A'', \<lparr>entry_time = 0, direction = ''LONG'', reason = ''X rally benefits supplier'',
               p_confidence = 0.7\<rparr>),
      (''B'', \<lparr>entry_time = 0, direction = ''SHORT'', reason = ''X rally hurts competitor'',
               p_confidence = 0.5\<rparr>)] \<and>
   holdings_of (TriggerSecondOrderTrades xab_algo ''X'' 0.06 full_slice) =
     [(''X'', 0), (''A'', 42), (''B'', - 30)] \<and>
   orders_of (TriggerSecondOrderTrades xab_algo ''X'' 0.06 full_slice) =
     [SetHoldingsOrder ''A'' 0.042, StopMarket ''A'' (- 42) 95,
      SetHoldingsOrder ''B'' (- 0.03), StopMarket ''B'' (- 30) 105]"
  by (simp add: trigger_eval positions_of_def holdings_of_def orders_of_def)

theorem graph_only_path_C4_witness:
  "map_of (supply_chains xab_algo) ''X'' = Some [(''suppliers'', [''A'']), (''competitors'', [''B''])] \<and>
   (0::real) < 0.06 \<and> ContainsKey full_slice ''A'' \<and> ContainsKey full_slice ''B'' \<and> ''A'' \<noteq> ''B'' \<and>
   map_of (Portfolio xab_algo) ''A'' = Some 0 \<and> map_of (Portfolio xab_algo) ''B'' = Some 0 \<and>
   current_positions xab_algo + 1 < max_positions xab_algo \<and>
   get_affected_tickers xab_mapper ''X'' ''earnings_beat'' = [(''positive'', [''A'']), (''negative'', [''B''])] \<and>
   orders_of (TriggerSecondOrderTrades xab_algo ''X'' 0.06 full_slice) =
     [SetHoldingsOrder ''A'' 0.042, StopMarket ''A'' (- 42) 95,
      SetHoldingsOrder ''B'' (- 0.03), StopMarket ''B'' (- 30) 105]"
proof -
  have g: "map_of (supply_chains xab_algo) ''X'' = Some [(''suppliers'', [''A'']), (''competitors'', [''B''])]"
    by (simp add: xab_algo_def)
  have up: "(0::real) < 0.06" by simp
  have da: "ContainsKey full_slice ''A''" and db: "ContainsKey full_slice ''B''"
    by (simp_all add: full_slice_def)
  have ab: "''A'' \<noteq> ''B''" by simp
  have pa: "map_of (Portfolio xab_algo) ''A'' = Some 0"
    and pb: "map_of (Portfolio xab_algo) ''B'' = Some 0"
    by (simp_all add: xab_algo_def)
  have room: "current_positions xab_algo + 1 < max_positions xab_algo"
    by (simp add: xab_algo_def engine0_def current_positions_def)
  show ?thesis
    using g up da db ab pa pb room
      graph_only_path_C4 [OF g up da db ab pa pb room]
    by (simp add: xab_mapper_def xab_algo_def engine0_def)
qed

subsection \<open>The two detection rules\<close>

text \<open>
  The trading routines change holdings, orders and tracked positions only: they are
  \<open>quiet\<close>. So the primary events of the log come from the two detectors alone.
\<close>

lemma quiet_refl: "quiet sy s s"
  by (simp add: quiet_def)

lemma quiet_trans: "quiet sy s s1 \<Longrightarrow> quiet sy s1 s2 \<Longrightarrow> quiet sy s s2"
  by (simp add: quiet_def)

lemma keys_update:
  "k \<in> fst ` set al \<Longrightarrow> fst ` set (AList.update k v al) = fst ` set al"
  by (auto simp: dom_update)

lemma Execute_Portfolio:
  "ExecuteSecondOrderTrade s symbol dir why conf = Inr s' \<Longrightarrow>
   symbol \<in> fst ` set (Portfolio s) \<and>
   (Portfolio s' = Portfolio s \<or> (\<exists>q. Portfolio s' = AList.update symbol q (Portfolio s)))"
  by (auto simp: ExecuteSecondOrderTrade_def Let_def SetHoldings_def Debug_def
      StopMarketOrder_def split: if_splits)

lemma Execute_fields:
  "ExecuteSecondOrderTrade s symbol dir why conf = Inr s' \<Longrightarrow>
   primary_movers s' = primary_movers s \<and> supply_chains s' = supply_chains s \<and>
   UnrealizedProfitPercent s' = UnrealizedProfitPercent s \<and> History s' = History s \<and>
   events_for sy (debug_log s') = events_for sy (debug_log s)"
  by (auto simp: ExecuteSecondOrderTrade_def Let_def SetHoldings_def Debug_def
      StopMarketOrder_def events_for_def split: if_splits)

lemma Execute_quiet:
  assumes "ExecuteSecondOrderTrade s symbol dir why conf = Inr s'"
  shows "quiet sy s s'"
proof -
  have k: "symbol \<in> fst ` set (Portfolio s)"
    and d: "Portfolio s' = Portfolio s \<or> (\<exists>q. Portfolio s' = AList.update symbol q (Portfolio s))"
    using Execute_Portfolio [OF assms] by simp_all
  from d have "fst ` set (Portfolio s') = fst ` set (Portfolio s)"
  proof
    assume "Portfolio s' = Portfolio s"
    then show ?thesis by simp
  next
    assume "\<exists>q. Portfolio s' = AList.update symbol q (Portfolio s)"
    then obtain q where "Portfolio s' = AList.update symbol q (Portfolio s)" ..
    then show ?thesis using keys_update [OF k, of q] by simp
  qed
  then show ?thesis
    using Execute_fields [OF assms, of sy] by (simp add: quiet_def)
qed

lemma Execute_returns:
  "symbol \<in> fst ` set (Portfolio s) \<Longrightarrow> \<exists>s'. ExecuteSecondOrderTrade s symbol dir why conf = Inr s'"
  by (simp add: ExecuteSecondOrderTrade_def Let_def)

lemma trade_each_quiet:
  "set ts \<subseteq> fst ` set (Portfolio s) \<Longrightarrow>
   \<exists>s'. trade_each ts data dir why conf s = Inr s' \<and> (\<forall>sy. quiet sy s s')"
proof (induction ts arbitrary: s)
  case Nil
  then show ?case by (simp add: quiet_refl)
next
  case (Cons t ts)
  show ?case
  proof (cases "ContainsKey data t")
    case False
    then show ?thesis using Cons.IH [of s] Cons.prems by simp
  next
    case True
    have "t \<in> fst ` set (Portfolio s)" using Cons.prems by simp
    then obtain s1 where e: "ExecuteSecondOrderTrade s t dir why conf = Inr s1"
      using Execute_returns by blast
    have q: "\<forall>sy. quiet sy s s1" using Execute_quiet [OF e] by simp
    then have "set ts \<subseteq> fst ` set (Portfolio s1)"
      using Cons.prems by (simp add: quiet_def)
    then obtain s' where r: "trade_each ts data dir why conf s1 = Inr s'"
      and q': "\<forall>sy. quiet sy s1 s'"
      using Cons.IH [of s1] by blast
    show ?thesis using True e r q q' by (auto intro: quiet_trans)
  qed
qed

lemma get_list_chain_tickers:
  "map_of (supply_chains s) p = Some chain \<Longrightarrow> set (get_list chain k) \<subseteq> chain_tickers s"
proof -
  assume m: "map_of (supply_chains s) p = Some chain"
  then have c: "(p, chain) \<in> set (supply_chains s)" by (rule map_of_SomeD)
  show ?thesis
  proof (cases "map_of chain k")
    case None
    then show ?thesis by (simp add: get_list_def)
  next
    case (Some v)
    then have "(k, v) \<in> set chain" by (rule map_of_SomeD)
    then show ?thesis using c Some by (force simp: get_list_def chain_tickers_def)
  qed
qed

lemma Trigger_quiet:
  assumes "chain_tickers s \<subseteq> fst ` set (Portfolio s)"
  shows "\<exists>s'. TriggerSecondOrderTrades s p mv data = Inr s' \<and> (\<forall>sy. quiet sy s s')"
proof (cases "map_of (supply_chains s) p")
  case None
  then show ?thesis by (simp add: TriggerSecondOrderTrades_def quiet_refl)
next
  case (Some chain)
  have k: "\<And>k. set (get_list chain k) \<subseteq> fst ` set (Portfolio s)"
    using get_list_chain_tickers [OF Some] assms by blast
  have two: "\<exists>s'. (case trade_each (get_list chain ''suppliers'') data d1 w1 c1 s of
                      Inl e \<Rightarrow> Inl e
                    | Inr s1 \<Rightarrow> trade_each (get_list chain ''competitors'') data d2 w2 c2 s1) = Inr s'
                 \<and> (\<forall>sy. quiet sy s s')" for d1 w1 c1 d2 w2 c2
  proof -
    obtain s1 where a: "trade_each (get_list chain ''suppliers'') data d1 w1 c1 s = Inr s1"
      and qa: "\<forall>sy. quiet sy s s1"
      using trade_each_quiet [OF k] by blast
    have "set (get_list chain ''competitors'') \<subseteq> fst ` set (Portfolio s1)"
      using k qa by (simp add: quiet_def)
    then obtain s2 where b: "trade_each (get_list chain ''competitors'') data d2 w2 c2 s1 = Inr s2"
      and qb: "\<forall>sy. quiet sy s1 s2"
      using trade_each_quiet by blast
    show ?thesis using a b qa qb by (auto intro: quiet_trans)
  qed
  show ?thesis
    using Some two by (simp add: TriggerSecondOrderTrades_def)
qed


lemma OnData_loop_events:
  assumes "chain_tickers s \<subseteq> fst ` set (Portfolio s)"
    and "set syms \<subseteq> fst ` set (Portfolio s)" and "distinct syms"
  shows "\<exists>s'. OnData_loop syms data s = Inr s' \<and>
           primary_movers s' = primary_movers s \<and> supply_chains s' = supply_chains s \<and>
           UnrealizedProfitPercent s' = UnrealizedProfitPercent s \<and> History s' = History s \<and>
           fst ` set (Portfolio s') = fst ` set (Portfolio s) \<and>
           events_for sy (debug_log s') =
             events_for sy (debug_log s) @
             (if sy \<in> set syms \<and> intraday_fires s data sy
              then [PrimaryEventDetected sy (UnrealizedProfitPercent s sy)] else [])"
  using assms
proof (induction syms arbitrary: s)
  case Nil
  then show ?case by simp
next
  case (Cons symbol rest)
  have rest: "set rest \<subseteq> fst ` set (Portfolio s)" "distinct rest" "symbol \<notin> set rest"
    and key: "symbol \<in> fst ` set (Portfolio s)"
    using Cons.prems by simp_all
  show ?case
  proof (cases "intraday_fires s data symbol")
    case False
    then have step: "OnData_loop (symbol # rest) data s = OnData_loop rest data s"
      using key by (auto simp: intraday_fires_def Let_def)
    show ?thesis
      using Cons.IH [OF Cons.prems(1) rest(1) rest(2)] False rest(3)
      unfolding step by auto
  next
    case True
    let ?r = "UnrealizedProfitPercent s symbol"
    let ?s0 = "Debug (PrimaryEventDetected symbol ?r) s"
    have c0: "chain_tickers ?s0 \<subseteq> fst ` set (Portfolio ?s0)"
      using Cons.prems(1) by (simp add: Debug_def chain_tickers_def)
    obtain s1 where t: "TriggerSecondOrderTrades ?s0 symbol ?r data = Inr s1"
      and q: "\<forall>sy. quiet sy ?s0 s1"
      using Trigger_quiet [OF c0] by blast
    have step: "OnData_loop (symbol # rest) data s = OnData_loop rest data s1"
      using True key t by (simp add: intraday_fires_def Let_def)
    have q1: "quiet sy ?s0 s1" using q by simp
    have f1: "primary_movers s1 = primary_movers s" "supply_chains s1 = supply_chains s"
      "UnrealizedProfitPercent s1 = UnrealizedProfitPercent s" "History s1 = History s"
      "fst ` set (Portfolio s1) = fst ` set (Portfolio s)"
      using q1 by (simp_all add: quiet_def Debug_def)
    have e1: "events_for sy (debug_log s1) =
                events_for sy (debug_log s) @
                (if sy = symbol then [PrimaryEventDetected sy ?r] else [])"
      using q1 by (auto simp: quiet_def Debug_def events_for_def)
    have c1: "chain_tickers s1 \<subseteq> fst ` set (Portfolio s1)"
      using Cons.prems(1) f1 by (simp add: chain_tickers_def)
    have r1: "set rest \<subseteq> fst ` set (Portfolio s1)" using rest(1) f1 by simp
    have i1: "intraday_fires s1 data sy = intraday_fires s data sy"
      using f1 by (simp add: intraday_fires_def)
    show ?thesis
      using Cons.IH [OF c1 r1 rest(2)] True rest(3)
      unfolding step f1 e1 i1 by auto
  qed
qed

lemma analyze_ticker_quiet: "quiet sy s (analyze_ticker p mv category t s)"
  by (auto simp: analyze_ticker_def Let_def quiet_refl split: option.splits sum.splits
      intro: Execute_quiet)

lemma fold_quiet:
  "(\<And>x s. quiet sy s (f x s)) \<Longrightarrow> quiet sy s (fold f xs s)"
proof (induction xs arbitrary: s)
  case Nil
  then show ?case by (simp add: quiet_refl)
next
  case (Cons x xs)
  have "quiet sy s (f x s)" by (rule Cons.prems)
  moreover have "quiet sy (f x s) (fold f xs (f x s))" by (rule Cons.IH) (rule Cons.prems)
  ultimately show ?case by (simp add: quiet_trans)
qed

lemma Analyze_quiet: "quiet sy s (AnalyzeSecondOrderOpportunities s p mv)"
  unfolding AnalyzeSecondOrderOpportunities_def
  by (auto split: option.splits simp: quiet_refl intro!: fold_quiet analyze_ticker_quiet)

lemma detect_symbol_events:
  "primary_movers (detect_symbol symbol s) = primary_movers s \<and>
   History (detect_symbol symbol s) = History s \<and>
   events_for sy (debug_log (detect_symbol symbol s)) =
     events_for sy (debug_log s) @
     (if sy = symbol \<and> multi_day_fires s symbol
      then [MultiDayEvent sy (multi_day_move s sy)] else [])"
proof (cases "multi_day_fires s symbol")
  case False
  then have "detect_symbol symbol s = s"
    by (auto simp: detect_symbol_def multi_day_fires_def split: option.splits)
  then show ?thesis using False by simp
next
  case True
  then obtain r where r: "five_day_return (History s symbol 5) = Some r" "\<bar>r\<bar> > 0.10"
    by (auto simp: multi_day_fires_def split: option.splits)
  let ?s0 = "Debug (MultiDayEvent symbol r) s"
  have d: "detect_symbol symbol s = AnalyzeSecondOrderOpportunities ?s0 symbol r"
    using r by (simp add: detect_symbol_def)
  have q: "quiet sy ?s0 (detect_symbol symbol s)"
    unfolding d by (rule Analyze_quiet)
  have m: "multi_day_move s symbol = r" using r by (simp add: multi_day_move_def)
  show ?thesis
    using q True m by (auto simp: quiet_def Debug_def events_for_def)
qed

lemma fold_detect_events:
  "distinct syms \<Longrightarrow>
   primary_movers (fold detect_symbol syms s) = primary_movers s \<and>
   History (fold detect_symbol syms s) = History s \<and>
   events_for sy (debug_log (fold detect_symbol syms s)) =
     events_for sy (debug_log s) @
     (if sy \<in> set syms \<and> multi_day_fires s sy
      then [MultiDayEvent sy (multi_day_move s sy)] else [])"
proof (induction syms arbitrary: s)
  case Nil
  then show ?case by simp
next
  case (Cons symbol rest)
  let ?s1 = "detect_symbol symbol s"
  have d: "distinct rest" "symbol \<notin> set rest" using Cons.prems by simp_all
  have h: "History ?s1 = History s" using detect_symbol_events [of symbol s sy] by simp
  have f: "multi_day_fires ?s1 sy = multi_day_fires s sy"
    "multi_day_move ?s1 sy = multi_day_move s sy"
    using h by (simp_all add: multi_day_fires_def multi_day_move_def)
  show ?case
    using Cons.IH [OF d(1), of ?s1] detect_symbol_events [of symbol s sy] d(2)
    unfolding f by auto
qed

lemma Detect_events:
  assumes "distinct (primary_movers s)"
  shows "events_for sy (debug_log (DetectSecondOrderEffects s)) =
           events_for sy (debug_log s) @
           (if sy \<in> set (primary_movers s) \<and> multi_day_fires s sy
            then [MultiDayEvent sy (multi_day_move s sy)] else [])"
proof (cases "list_all (\<lambda>symbol. History s symbol 5 = []) (primary_movers s)")
  case True
  then have "sy \<in> set (primary_movers s) \<Longrightarrow> \<not> multi_day_fires s sy"
    by (auto simp: list_all_iff multi_day_fires_def five_day_return_def)
  then show ?thesis using True by (auto simp: DetectSecondOrderEffects_def)
next
  case False
  then show ?thesis
    using fold_detect_events [OF assms, of s sy] by (simp add: DetectSecondOrderEffects_def)
qed

text \<open>
  C5, amended. There is no tie-break between the two detection rules: \<open>OnData\<close> and
  \<open>DetectSecondOrderEffects\<close> are independent handlers and neither looks at what the
  other found. In one evaluation cycle (the data callback followed by the scheduled check,
  on the same market data), with every primary mover and every ticker of the graph added
  to the engine and the primary movers distinct, the data callback returns, and the primary
  events logged for a ticker are exactly: the intraday event, if the ticker is a primary
  mover and the intraday rule fires, followed by the multi-day event, if the ticker is a
  primary mover and the multi-day rule fires. When both rules fire, both events are
  produced.
\<close>

theorem both_rules_both_events_C5:
  assumes "all_added s" and "distinct (primary_movers s)"
  shows "\<exists>s1. OnData s data = Inr s1 \<and>
           events_for sy (debug_log (DetectSecondOrderEffects s1)) =
             events_for sy (debug_log s) @
             (if sy \<in> set (primary_movers s) \<and> intraday_fires s data sy
              then [PrimaryEventDetected sy (UnrealizedProfitPercent s sy)] else []) @
             (if sy \<in> set (primary_movers s) \<and> multi_day_fires s sy
              then [MultiDayEvent sy (multi_day_move s sy)] else [])"
proof -
  have a: "chain_tickers s \<subseteq> fst ` set (Portfolio s)"
    "set (primary_movers s) \<subseteq> fst ` set (Portfolio s)"
    using assms(1) by (simp_all add: all_added_def)
  obtain s1 where o: "OnData s data = Inr s1"
    and p: "primary_movers s1 = primary_movers s" and h: "History s1 = History s"
    and e: "events_for sy (debug_log s1) =
              events_for sy (debug_log s) @
              (if sy \<in> set (primary_movers s) \<and> intraday_fires s data sy
               then [PrimaryEventDetected sy (UnrealizedProfitPercent s sy)] else [])"
    using OnData_loop_events [OF a assms(2), of data sy] unfolding OnData_def by blast
  have d: "distinct (primary_movers s1)" using p assms(2) by simp
  have f: "multi_day_fires s1 sy = multi_day_fires s sy"
    "multi_day_move s1 sy = multi_day_move s sy"
    using h by (simp_all add: multi_day_fires_def multi_day_move_def)
  show ?thesis
    using o Detect_events [OF d, of sy] unfolding e p f by simp
qed


text \<open>
  C5, as stated, fails. In the market \<open>x_market\<close>, X shows an unrealised profit of 6%
  and a five-day return of 12%, so both rules fire for X; the cycle logs two primary events
  for X, the intraday one and the multi-day one.
\<close>

theorem both_events_counterexample_C5:
  "intraday_fires (observe (x_market 0) xab_algo) full_slice ''X'' \<and>
   multi_day_fires (observe (x_market 0) xab_algo) ''X'' \<and>
   events_for ''X''
     (debug_of (run [OnDataCall (x_market 0) full_slice, ScheduledCall (x_market 0)] xab_algo)) =
     [PrimaryEventDetected ''X'' 0.06, MultiDayEvent ''X'' 0.12]"
proof -
  have "OnData (observe (x_market 0) xab_algo) full_slice = Inr s1 \<Longrightarrow>
        events_for ''X'' (debug_log (DetectSecondOrderEffects (observe (x_market 0) s1))) =
          [PrimaryEventDetected ''X'' 0.06, MultiDayEvent ''X'' 0.12]" for s1
    by (auto simp: algo_eval DetectSecondOrderEffects_def detect_symbol_def five_day_return_def
        AnalyzeSecondOrderOpportunities_def analyze_ticker_def ticker_return_def
        events_for_def)
  then show ?thesis
    by (auto simp: debug_of_def intraday_fires_def multi_day_fires_def five_day_return_def
        algo_eval split: sum.splits)
qed

text \<open>The amended C5 at the same cycle.\<close>

theorem both_rules_both_events_C5_witness:
  "all_added (observe (x_market 0) xab_algo) \<and>
   distinct (primary_movers (observe (x_market 0) xab_algo)) \<and>
   (\<exists>s1. OnData (observe (x_market 0) xab_algo) full_slice = Inr s1 \<and>
         events_for ''X'' (debug_log (DetectSecondOrderEffects s1)) =
           [PrimaryEventDetected ''X'' 0.06, MultiDayEvent ''X'' 0.12])"
proof -
  define s0 where "s0 = observe (x_market 0) xab_algo"
  have a: "all_added s0"
    by (simp add: s0_def all_added_def chain_tickers_def observe_def xab_algo_def engine0_def)
  have d: "distinct (primary_movers s0)"
    by (simp add: s0_def observe_def xab_algo_def engine0_def)
  have f: "''X'' \<in> set (primary_movers s0)" "intraday_fires s0 full_slice ''X''"
    "multi_day_fires s0 ''X''"
    and g: "UnrealizedProfitPercent s0 ''X'' = 0.06"
    "multi_day_move s0 ''X'' = 0.12" "events_for ''X'' (debug_log s0) = []"
    by (simp_all add: s0_def observe_def xab_algo_def engine0_def x_market_def full_slice_def
        intraday_fires_def multi_day_fires_def multi_day_move_def five_day_return_def
        events_for_def)
  show ?thesis
    using a d f both_rules_both_events_C5 [OF a d, of full_slice "''X''"]
    unfolding g s0_def [symmetric] by simp
qed

end
